theory Spec2Isabelle
  imports Main "HOL-Library.AList"
begin

section \<open>Survey spreadsheet analysis: column selection, batching and LLM orchestration\<close>

text \<open>
  A shallow embedding of \<^verbatim>\<open>src/components/ExcelProcessor.tsx\<close>. The source file holds two
  iterations of the component: the earlier one (DeepSeek backend, blacklist column policy,
  one request per column) and the later one (Ark backend, marker column policy, batched
  map-reduce analysis). Definitions of the earlier iteration carry the suffix \<open>_v1\<close>;
  unsuffixed definitions embed the later iteration.
\<close>

subsection \<open>JavaScript strings and values\<close>

text \<open>
  A JavaScript string is a sequence of UTF-16 code units; a code unit is modelled by its
  number. The Chinese literals of the source are written out as code units.
\<close>

type_synonym jsstring = "nat list"

text \<open>
  The values a cell or a row field holds: \<^verbatim>\<open>string | number\<close> as \<^verbatim>\<open>ExcelData\<close> declares,
  and \<^verbatim>\<open>undefined\<close>, which is what reading an absent property gives. Numbers are modelled
  by the integers (the reader is called with \<^verbatim>\<open>raw: false\<close> and returns formatted strings;
  the only numbers the component creates itself are row ordinals). \<^verbatim>\<open>null\<close> never occurs
  in a row and is left out.
\<close>

datatype jsval = Undefined | Str jsstring | Num int

text \<open>An object with string keys, in property order; a later binding of a key never occurs
  because \<open>put\<close> overwrites in place.\<close>

type_synonym jsobj = "(jsstring \<times> jsval) list"

definition get :: "jsobj \<Rightarrow> jsstring \<Rightarrow> jsval" where
  "get row col = (case map_of row col of None \<Rightarrow> Undefined | Some v \<Rightarrow> v)"

definition put :: "jsstring \<Rightarrow> jsval \<Rightarrow> jsobj \<Rightarrow> jsobj" where
  "put col v row = AList.update col v row"

definition Object_keys :: "jsobj \<Rightarrow> jsstring list" where
  "Object_keys row = map fst row"

text \<open>
  \<^verbatim>\<open>Array.prototype.slice(i, j)\<close> for \<open>0 \<le> i \<le> j\<close>: the elements at positions
  \<open>i \<le> k < min j (length xs)\<close>.
\<close>

definition slice :: "'a list \<Rightarrow> nat \<Rightarrow> nat \<Rightarrow> 'a list" where
  "slice xs i j = take (j - i) (drop i xs)"

text \<open>Truthiness, and \<^verbatim>\<open>a || b\<close>.\<close>

fun truthy :: "jsval \<Rightarrow> bool" where
  "truthy Undefined = False"
| "truthy (Str s) = (s \<noteq> [])"
| "truthy (Num n) = (n \<noteq> 0)"

definition or_else :: "jsval \<Rightarrow> jsval \<Rightarrow> jsval" where
  "or_else a b = (if truthy a then a else b)"

text \<open>\<^verbatim>\<open>String.prototype.trim\<close>: strips the WhiteSpace and LineTerminator code points.\<close>

definition isWhiteSpace :: "nat \<Rightarrow> bool" where
  "isWhiteSpace c \<longleftrightarrow>
     c \<in> {9, 10, 11, 12, 13, 32, 160, 5760, 8232, 8233, 8239, 8287, 12288, 65279}
     \<or> (8192 \<le> c \<and> c \<le> 8202)"

definition trim :: "jsstring \<Rightarrow> jsstring" where
  "trim s = rev (dropWhile isWhiteSpace (rev (dropWhile isWhiteSpace s)))"

text \<open>Decimal rendering of an integer, which is what \<^verbatim>\<open>String(n)\<close> and a template literal
  give for an integer below \<open>10\<^sup>2\<^sup>1\<close> in absolute value.\<close>

fun showNat :: "nat \<Rightarrow> jsstring" where
  "showNat n = (if n < 10 then [48 + n] else showNat (n div 10 ) @ [48 + n mod 10])"

declare showNat.simps [simp del]

definition showInt :: "int \<Rightarrow> jsstring" where
  "showInt n = (if n < 0 then 45 # showNat (nat (- n)) else showNat (nat n))"

text \<open>\<^verbatim>\<open>String(value)\<close>; \<^verbatim>\<open>String(undefined)\<close> is the text \<^verbatim>\<open>undefined\<close>.\<close>

fun String_of :: "jsval \<Rightarrow> jsstring" where
  "String_of Undefined = [117, 110, 100, 101, 102, 105, 110, 101, 100]"
| "String_of (Str s) = s"
| "String_of (Num n) = showInt n"

text \<open>\<^verbatim>\<open>s.includes(pat)\<close> and a regular expression that is a plain literal, tested on \<open>s\<close>.\<close>

fun startsWith :: "'a list \<Rightarrow> 'a list \<Rightarrow> bool" where
  "startsWith s [] = True"
| "startsWith [] (p # ps) = False"
| "startsWith (c # cs) (p # ps) = (c = p \<and> startsWith cs ps)"

fun js_includes :: "'a list \<Rightarrow> 'a list \<Rightarrow> bool" where
  "js_includes [] pat = (pat = [])"
| "js_includes (c # cs) pat = (startsWith (c # cs) pat \<or> js_includes cs pat)"

text \<open>
  \<^verbatim>\<open>toLowerCase\<close> on the letters A to Z. The full Unicode mapping also changes code units
  outside ASCII, but maps none of them to a code unit of the two markers looked for in the
  lower-cased column name, so that test is the same. The case-insensitive pattern of the
  earlier iteration folds the case of ASCII letters only, which is this map.
\<close>

definition lowerUnit :: "nat \<Rightarrow> nat" where
  "lowerUnit c = (if 65 \<le> c \<and> c \<le> 90 then c + 32 else c)"

definition toLowerCase :: "jsstring \<Rightarrow> jsstring" where
  "toLowerCase s = map lowerUnit s"

text \<open>The "no answer" sentinel (the one character U+65E0) and the key of the row ordinal, \<^verbatim>\<open>'key'\<close>.\<close>

definition sentinel :: jsstring where
  "sentinel = [26080]"

definition key_field :: jsstring where
  "key_field = [107, 101, 121]"

subsection \<open>Column Selector\<close>

text \<open>Later iteration: a column is kept when its lower-cased name contains \<^verbatim>\<open>text\<close> or
  the two-character marker U+5206 U+5217.\<close>

definition shouldSkipColumn :: "jsstring \<Rightarrow> bool" where
  "shouldSkipColumn columnName =
     (let lowerColumnName = toLowerCase columnName
      in \<not> js_includes lowerColumnName [116, 101, 120, 116] \<and> \<not> js_includes lowerColumnName [20998, 21015])"

text \<open>
  Later iteration of \<^verbatim>\<open>hasEnoughUniqueValues\<close>: rows whose value is undefined, empty or the
  sentinel are dropped; the values left are trimmed (a string) or stringified (a number);
  values that are empty after that are dropped; the \<^verbatim>\<open>Set\<close> of the rest needs at least 10
  elements. The size of the set is the length of the list without duplicates.
\<close>

definition validValue :: "jsval \<Rightarrow> bool" where
  "validValue v \<longleftrightarrow> v \<noteq> Undefined \<and> v \<noteq> Str [] \<and> v \<noteq> Str sentinel"

definition normalized :: "jsval \<Rightarrow> jsstring" where
  "normalized v = (case v of Str s \<Rightarrow> trim s | _ \<Rightarrow> String_of v)"

definition uniqueValues :: "jsobj list \<Rightarrow> jsstring \<Rightarrow> jsstring list" where
  "uniqueValues data columnName =
     (let validRows = filter (\<lambda>row. validValue (get row columnName)) data
      in remdups (filter (\<lambda>value. value \<noteq> [])
                   (map (\<lambda>row. normalized (get row columnName)) validRows)))"

definition hasEnoughUniqueValues :: "jsobj list \<Rightarrow> jsstring \<Rightarrow> bool" where
  "hasEnoughUniqueValues data columnName \<longleftrightarrow> 10 \<le> length (uniqueValues data columnName)"

text \<open>
  Earlier iteration: a blacklist of patterns. The first test returns early for a name that
  is nothing but a single-choice or multiple-choice tag (U+5355 or U+591A, then U+9009) and
  white space. The patterns are plain texts, tested by containment; the one case-insensitive
  pattern of the list, \<^verbatim>\<open>/ucid/i\<close>, is tested apart on the lower-cased name.
\<close>

definition skipPatterns :: "jsstring list" where
  "skipPatterns = [
     [21333, 36873],
     [22810, 36873],
     [24320, 22987, 26102, 38388],
     [32467, 26463, 26102, 38388],
     [32452, 32455, 32534, 30721],
     [32452, 32455, 20449, 24687],
     [23703, 20301, 21517, 31216],
     [20844, 21496, 25152, 22312, 22478, 24066],
     [24037, 20316, 25152, 22312, 22478, 24066],
     [21697, 29260],
     [38376, 24215, 20449, 24687],
     [26465, 32447],
     [25152, 23646, 32452, 32455]]"

fun removeChoice :: "jsstring \<Rightarrow> jsstring" where
  "removeChoice (a # b # rest) =
     (if (a = 21333 \<or> a = 22810) \<and> b = 36873 then rest else a # removeChoice (b # rest))"
| "removeChoice s = s"

definition shouldSkipColumn_v1 :: "jsstring \<Rightarrow> bool" where
  "shouldSkipColumn_v1 columnName =
     (if (js_includes columnName [21333, 36873] \<or> js_includes columnName [22810, 36873])
         \<and> trim (removeChoice columnName) = []
      then True
      else (\<exists>pattern \<in> set skipPatterns. js_includes columnName pattern)
           \<or> js_includes (toLowerCase columnName) [117, 99, 105, 100])"

text \<open>Earlier iteration of \<^verbatim>\<open>hasEnoughUniqueValues\<close>: the raw values that are neither undefined
  nor the empty string, without duplicates, must be more than 10.\<close>

definition uniqueValues_v1 :: "jsobj list \<Rightarrow> jsstring \<Rightarrow> jsval list" where
  "uniqueValues_v1 data columnName =
     remdups (filter (\<lambda>value. value \<noteq> Undefined \<and> value \<noteq> Str [])
                (map (\<lambda>row. get row columnName) data))"

definition hasEnoughUniqueValues_v1 :: "jsobj list \<Rightarrow> jsstring \<Rightarrow> bool" where
  "hasEnoughUniqueValues_v1 data columnName \<longleftrightarrow> 10 < length (uniqueValues_v1 data columnName)"

text \<open>The column filter of \<^verbatim>\<open>processExcelFile\<close>, on a non-empty sheet: the columns are the
  keys of the first row, the first three are the identity columns.\<close>

definition allColumns :: "jsobj list \<Rightarrow> jsstring list" where
  "allColumns jsonData = Object_keys (hd jsonData)"

definition firstThreeColumns :: "jsobj list \<Rightarrow> jsstring list" where
  "firstThreeColumns jsonData = slice (allColumns jsonData) 0 3"

definition remainingColumns :: "jsobj list \<Rightarrow> jsstring list" where
  "remainingColumns jsonData =
     filter (\<lambda>col. \<not> shouldSkipColumn col \<and> hasEnoughUniqueValues jsonData col)
       (drop 3 (allColumns jsonData))"

definition remainingColumns_v1 :: "jsobj list \<Rightarrow> jsstring list" where
  "remainingColumns_v1 jsonData =
     filter (\<lambda>col. \<not> shouldSkipColumn_v1 col \<and> hasEnoughUniqueValues_v1 jsonData col)
       (drop 3 (allColumns jsonData))"

subsection \<open>Row Projector and table construction\<close>

text \<open>
  The state of one dataset, \<^verbatim>\<open>ProcessedTable\<close>. An optional field is \<open>Undefined\<close> or \<open>None\<close>
  when absent. The column definitions are kept by their titles. The status texts are
  template literals in the source; each template is a constructor here and carries the values
  the template interpolates.
\<close>

datatype api_status = StatusSuccess | StatusError | StatusAnalyzing

datatype error_message =
    RequestFailed "nat option" nat jsstring
  | FormatError "nat option"
  | LengthOfUndefined
  | TrimNotAFunction
  | Thrown jsstring
  | AuthFailed
  | TooManyRequests
  | TopicFailed error_message

datatype status_message =
    MsgStarted
  | MsgBatchesCreated nat nat
  | MsgBatchRunning nat nat
  | MsgRowsDone nat nat nat
  | MsgSummarising
  | MsgCompleted
  | MsgFailed error_message

record ProcessedTable =
  name :: jsstring
  data :: "jsobj list"
  columns :: "jsstring list"
  analysis :: "jsstring option"
  isAnalyzing :: bool
  commonTopics :: "jsstring list"
  isAnalyzingTopics :: bool
  topicsAnalysis :: "jsstring option"
  topicsApiStatus :: "api_status option"
  topicsApiMessage :: "status_message option"
  analysisApiStatus :: "api_status option"
  analysisApiMessage :: "status_message option"

text \<open>The row filter of the later iteration, and of the earlier one (no sentinel test).\<close>

definition keepRow :: "jsstring \<Rightarrow> jsobj \<Rightarrow> bool" where
  "keepRow column row =
     (let value = get row column
      in value \<noteq> Undefined \<and> value \<noteq> Str [] \<and> value \<noteq> Str sentinel)"

definition keepRow_v1 :: "jsstring \<Rightarrow> jsobj \<Rightarrow> bool" where
  "keepRow_v1 column row =
     (let value = get row column
      in value \<noteq> Undefined \<and> value \<noteq> Str [])"

text \<open>
  The \<^verbatim>\<open>map\<close> callback, the same in both iterations: a new object with the ordinal under
  \<^verbatim>\<open>key\<close>, then one assignment per identity column (\<^verbatim>\<open>row[col] || ''\<close>), then the
  assignment of the analysed column.
\<close>

definition projectRow :: "jsstring list \<Rightarrow> jsstring \<Rightarrow> nat \<Rightarrow> jsobj \<Rightarrow> jsobj" where
  "projectRow firstThree column index row =
     (let newRow = [(key_field, Num (int index))];
          newRow = fold (\<lambda>col newRow. put col (or_else (get row col) (Str [])) newRow)
                     firstThree newRow
      in put column (get row column) newRow)"

definition mapIndexed :: "(nat \<Rightarrow> 'a \<Rightarrow> 'b) \<Rightarrow> 'a list \<Rightarrow> 'b list" where
  "mapIndexed f xs = map (\<lambda>(i, x). f i x) (enumerate 0 xs)"

definition tableData :: "jsobj list \<Rightarrow> jsstring \<Rightarrow> jsobj list" where
  "tableData jsonData column =
     mapIndexed (projectRow (firstThreeColumns jsonData) column)
       (filter (keepRow column) jsonData)"

definition tableData_v1 :: "jsobj list \<Rightarrow> jsstring \<Rightarrow> jsobj list" where
  "tableData_v1 jsonData column =
     mapIndexed (projectRow (firstThreeColumns jsonData) column)
       (filter (keepRow_v1 column) jsonData)"

text \<open>The table name: a fixed prefix, the column, and the row count between a fixed opening
  and a fixed closing text.\<close>

definition namePrefix :: jsstring where
  "namePrefix = [34920, 26684, 32, 45, 32]"

definition countOpen :: jsstring where
  "countOpen = [65288, 20849, 32]"

definition countClose :: jsstring where
  "countClose = [32, 26465, 25968, 25454, 65289]"

definition tableName :: "jsstring \<Rightarrow> nat \<Rightarrow> jsstring" where
  "tableName column n = namePrefix @ column @ countOpen @ showNat n @ countClose"

definition newTable :: "jsstring list \<Rightarrow> jsstring \<Rightarrow> jsobj list \<Rightarrow> ProcessedTable" where
  "newTable firstThree column rows =
     \<lparr> name = tableName column (length rows),
       data = rows,
       columns = firstThree @ [column],
       analysis = None,
       isAnalyzing = False,
       commonTopics = [],
       isAnalyzingTopics = False,
       topicsAnalysis = None,
       topicsApiStatus = None,
       topicsApiMessage = None,
       analysisApiStatus = None,
       analysisApiMessage = None \<rparr>"

text \<open>
  \<^verbatim>\<open>processExcelFile\<close> once the sheet is read: an empty sheet leaves the tables as they are,
  otherwise the tables are replaced by one table per remaining column.
\<close>

definition processExcelFile :: "jsobj list \<Rightarrow> ProcessedTable list \<Rightarrow> ProcessedTable list" where
  "processExcelFile jsonData tables =
     (if jsonData = [] then tables
      else map (\<lambda>column. newTable (firstThreeColumns jsonData) column (tableData jsonData column))
             (remainingColumns jsonData))"

definition processExcelFile_v1 :: "jsobj list \<Rightarrow> ProcessedTable list \<Rightarrow> ProcessedTable list" where
  "processExcelFile_v1 jsonData tables =
     (if jsonData = [] then tables
      else map (\<lambda>column. newTable (firstThreeColumns jsonData) column (tableData_v1 jsonData column))
             (remainingColumns_v1 jsonData))"

subsection \<open>Batcher\<close>

definition BATCH_SIZE :: nat where
  "BATCH_SIZE = 300"

text \<open>
  The batch creation loop of \<^verbatim>\<open>handleAnalyze\<close> and \<^verbatim>\<open>handleTopicsAnalysis\<close>:
  \<^verbatim>\<open>for (let i = 0; i < data.length; i += BATCH_SIZE) batches.push(data.slice(i, i + BATCH_SIZE))\<close>.
  The batch size is a parameter here. With a batch size of 0 the source loop never ends on
  non-empty rows, so the loop is a partial function and \<open>None\<close> stands for not returning.
\<close>

partial_function (option) batch_loop ::
  "nat \<Rightarrow> 'a list \<Rightarrow> nat \<Rightarrow> 'a list list \<Rightarrow> 'a list list option" where
  "batch_loop n rows i batches =
     (if i < length rows
      then batch_loop n rows (i + n) (batches @ [slice rows i (i + n)])
      else Some batches)"

definition createBatches :: "nat \<Rightarrow> 'a list \<Rightarrow> 'a list list option" where
  "createBatches n rows = batch_loop n rows 0 []"

text \<open>A structurally recursive description of the chunks, used to reason about the loop.\<close>

function chunks :: "nat \<Rightarrow> 'a list \<Rightarrow> 'a list list" where
  "chunks n xs = (if xs = [] \<or> n = 0 then [] else take n xs # chunks n (drop n xs))"
  by pat_completeness auto
termination
  by (relation "measure (\<lambda>(n, xs). length xs)") auto

declare chunks.simps [simp del]

subsection \<open>LLM Client\<close>

text \<open>
  What one request to the backend comes to. \<open>Rejected\<close>: the transport failed and the promise
  rejects with an error of the given message. \<open>NotOk\<close>: a response with a status outside 2xx.
  \<open>Ok\<close>: a 2xx response, whose body either cannot be read as the expected object at all
  (reading it throws), or lacks \<^verbatim>\<open>choices[0].message\<close>, or has a message whose \<^verbatim>\<open>content\<close> is a
  string or is absent (\<^verbatim>\<open>undefined\<close> or \<^verbatim>\<open>null\<close>).
\<close>

datatype response_body = BodyThrows jsstring | MissingMessage | MessageContent "jsstring option"

datatype fetch_outcome = Rejected jsstring | NotOk nat jsstring | Ok response_body

text \<open>
  A prompt is a fixed text around a payload; a request is modelled by the kind of prompt and
  its payload. One entry of \<^verbatim>\<open>batchResults\<close> is either what was pushed from a response or the
  failure placeholder with the batch number and the error message.
\<close>

datatype batch_output = BatchContent "jsstring option" | BatchFailed nat error_message

datatype request =
    BatchRequest "(jsstring \<times> jsval) list"
  | SummaryRequest "batch_output list"
  | TopicRequest jsstring jsstring "jsstring list"
  | TopicsSummaryRequest "jsstring list" "(jsstring \<times> jsval \<times> jsval) list"
  | ColumnRequest_v1 jsstring "jsobj list"

text \<open>
  The backend answers a request depending on the request and on how many requests were sent
  before it. The component state: the tables, the shared topics input, the banner of the
  earlier iteration, and the log of the requests sent so far.
\<close>

type_synonym backend = "nat \<Rightarrow> request \<Rightarrow> fetch_outcome"

datatype banner = BannerNone | BannerInfo | BannerSuccess | BannerError

record app =
  tables :: "ProcessedTable list"
  commonTopicsInput :: jsstring
  apiStatus :: banner
  sent :: "request list"

definition fetch :: "backend \<Rightarrow> request \<Rightarrow> app \<Rightarrow> fetch_outcome \<times> app" where
  "fetch backend req s = (backend (length (sent s)) req, s\<lparr>sent := sent s @ [req]\<rparr>)"

text \<open>\<^verbatim>\<open>setTables(prev => prev.map((t, i) => i === index ? f(t) : t))\<close>.\<close>

definition setTable :: "nat \<Rightarrow> (ProcessedTable \<Rightarrow> ProcessedTable) \<Rightarrow> app \<Rightarrow> app" where
  "setTable index f s = s\<lparr>tables := mapIndexed (\<lambda>i t. if i = index then f t else t) (tables s)\<rparr>"

text \<open>How a handler ends: it returns, it throws out of the handler, or it never returns.\<close>

datatype 'a run = Finished 'a | Uncaught | NoReturn

definition truthyStr :: "jsstring option \<Rightarrow> bool" where
  "truthyStr v \<longleftrightarrow> (case v of None \<Rightarrow> False | Some t \<Rightarrow> t \<noteq> [])"

subsection \<open>Batch Analyzer and Summarizer\<close>

text \<open>
  The column name is recovered from the table name by two regular expression replacements:
  the fixed prefix at the start, and at the end the opening text, one or more digits and the
  closing text. A match of the second has to end at the end of the name, and the digits
  before the closing text are preceded by the opening text, which ends with a space: so the
  digits of a match are all the digits before the closing text.
\<close>

definition isDigit :: "nat \<Rightarrow> bool" where
  "isDigit c \<longleftrightarrow> 48 \<le> c \<and> c \<le> 57"

definition stripNamePrefix :: "jsstring \<Rightarrow> jsstring" where
  "stripNamePrefix s = (if startsWith s namePrefix then drop (length namePrefix) s else s)"

definition stripCountSuffix :: "jsstring \<Rightarrow> jsstring" where
  "stripCountSuffix s =
     (let r = rev s in
      if startsWith r (rev countClose) then
        (let r1 = drop (length countClose) r;
             digits = takeWhile isDigit r1;
             r2 = dropWhile isDigit r1
         in if digits \<noteq> [] \<and> startsWith r2 (rev countOpen)
            then rev (drop (length countOpen) r2) else s)
      else s)"

definition columnNameOf :: "jsstring \<Rightarrow> jsstring" where
  "columnNameOf s = stripCountSuffix (stripNamePrefix s)"

text \<open>The two fixed identity fields and the text of a row, as both handlers read them.\<close>

definition nameField :: jsstring where
  "nameField = [22995, 21517]"

definition systemIdField :: jsstring where
  "systemIdField = [31995, 32479, 21495]"

definition userInfoOf :: "jsobj \<Rightarrow> jsstring" where
  "userInfoOf row =
     String_of (or_else (get row nameField) (Str [])) @ [45]
       @ String_of (or_else (get row systemIdField) (Str []))"

definition contentOf :: "ProcessedTable \<Rightarrow> jsobj \<Rightarrow> jsval" where
  "contentOf currentTable row =
     or_else (or_else (get row (columnNameOf (name currentTable))) (get row (name currentTable)))
       (Str [])"

text \<open>
  The body of the per-batch \<^verbatim>\<open>try\<close>: what one outcome adds to \<^verbatim>\<open>batchResults\<close>. After the
  content is pushed, its length is read for the log line; reading the length of an absent
  content throws, inside the \<^verbatim>\<open>try\<close>, and the \<^verbatim>\<open>catch\<close> pushes the placeholder as well.
\<close>

definition batchOutputs :: "nat \<Rightarrow> fetch_outcome \<Rightarrow> batch_output list" where
  "batchOutputs batchIndex outcome =
     (case outcome of
        Rejected msg \<Rightarrow> [BatchFailed (batchIndex + 1) (Thrown msg)]
      | NotOk status statusText \<Rightarrow>
          [BatchFailed (batchIndex + 1) (RequestFailed (Some (batchIndex + 1)) status statusText)]
      | Ok (BodyThrows msg) \<Rightarrow> [BatchFailed (batchIndex + 1) (Thrown msg)]
      | Ok MissingMessage \<Rightarrow> [BatchFailed (batchIndex + 1) (FormatError (Some (batchIndex + 1)))]
      | Ok (MessageContent None) \<Rightarrow>
          [BatchContent None, BatchFailed (batchIndex + 1) LengthOfUndefined]
      | Ok (MessageContent (Some text)) \<Rightarrow> [BatchContent (Some text)])"

fun processBatches ::
  "backend \<Rightarrow> nat \<Rightarrow> ProcessedTable \<Rightarrow> nat \<Rightarrow> nat \<Rightarrow> jsobj list list
     \<Rightarrow> batch_output list \<times> app \<Rightarrow> batch_output list \<times> app" where
  "processBatches backend index currentTable nBatches batchIndex [] acc = acc"
| "processBatches backend index currentTable nBatches batchIndex (batch # rest) (batchResults, s) =
     (let s = setTable index
                (\<lambda>t. t\<lparr>analysisApiMessage := Some (MsgBatchRunning (batchIndex + 1) nBatches)\<rparr>) s;
          batchData = map (\<lambda>row. (userInfoOf row, contentOf currentTable row)) batch;
          (outcome, s) = fetch backend (BatchRequest batchData) s
      in processBatches backend index currentTable nBatches (batchIndex + 1) rest
           (batchResults @ batchOutputs batchIndex outcome, s))"

text \<open>The final call: the error thrown, or the content stored as the analysis. The length of
  the content is read here too before it is stored.\<close>

definition finalResult :: "fetch_outcome \<Rightarrow> error_message + jsstring" where
  "finalResult outcome =
     (case outcome of
        Rejected msg \<Rightarrow> Inl (Thrown msg)
      | NotOk status statusText \<Rightarrow> Inl (RequestFailed None status statusText)
      | Ok (BodyThrows msg) \<Rightarrow> Inl (Thrown msg)
      | Ok MissingMessage \<Rightarrow> Inl (FormatError None)
      | Ok (MessageContent None) \<Rightarrow> Inl LengthOfUndefined
      | Ok (MessageContent (Some text)) \<Rightarrow> Inr text)"

definition handleAnalyze :: "backend \<Rightarrow> nat \<Rightarrow> app \<Rightarrow> app run" where
  "handleAnalyze backend index s =
     (if \<not> index < length (tables s) then Uncaught
      else if isAnalyzing (tables s ! index) then Finished s
      else
        (let currentTable = tables s ! index;
             s = setTable index
                   (\<lambda>t. t\<lparr>isAnalyzing := True, analysisApiStatus := Some StatusAnalyzing,
                           analysisApiMessage := Some MsgStarted\<rparr>) s
         in case createBatches BATCH_SIZE (data currentTable) of
              None \<Rightarrow> NoReturn
            | Some batches \<Rightarrow>
               (let s = setTable index
                          (\<lambda>t. t\<lparr>analysisApiMessage :=
                                    Some (MsgBatchesCreated (length batches) BATCH_SIZE)\<rparr>) s;
                    (batchResults, s) =
                       processBatches backend index currentTable (length batches) 0 batches ([], s);
                    s = setTable index (\<lambda>t. t\<lparr>analysisApiMessage := Some MsgSummarising\<rparr>) s;
                    (outcome, s) = fetch backend (SummaryRequest batchResults) s
                in Finished
                    (case finalResult outcome of
                       Inr analysisResult \<Rightarrow>
                         setTable index
                           (\<lambda>t. t\<lparr>isAnalyzing := False, analysis := Some analysisResult,
                                   analysisApiStatus := Some StatusSuccess,
                                   analysisApiMessage := Some MsgCompleted\<rparr>) s
                     | Inl err \<Rightarrow>
                         setTable index
                           (\<lambda>t. t\<lparr>isAnalyzing := False, analysisApiStatus := Some StatusError,
                                   analysisApiMessage := Some (MsgFailed err)\<rparr>) s))))"

text \<open>
  The analyse button of a table is rendered with
  \<^verbatim>\<open>disabled={table.isAnalyzing || !!table.analysis}\<close>; a click on a disabled button does not
  reach the handler.
\<close>

definition analyzeDisabled :: "ProcessedTable \<Rightarrow> bool" where
  "analyzeDisabled t \<longleftrightarrow> isAnalyzing t \<or> truthyStr (analysis t)"

definition clickAnalyze :: "backend \<Rightarrow> nat \<Rightarrow> app \<Rightarrow> app run" where
  "clickAnalyze backend index s =
     (if index < length (tables s) \<and> \<not> analyzeDisabled (tables s ! index)
      then handleAnalyze backend index s
      else Finished s)"

subsection \<open>Earlier iteration: one request per column\<close>

text \<open>
  \<^verbatim>\<open>analyzeDataWithDeepSeek\<close>: the whole body is in one \<^verbatim>\<open>try\<close>; the client rejects on a
  transport failure and on a status outside 2xx, and the \<^verbatim>\<open>catch\<close> returns a fixed text. A
  body without a non-empty content gives another fixed text.
\<close>

definition noResultText :: jsstring where
  "noResultText = [26080, 20998, 26512, 32467, 26524]"

definition analysisFailedText :: jsstring where
  "analysisFailedText = [25968, 25454, 20998, 26512, 22833, 36133, 65292, 35831, 31245, 21518, 37325, 35797]"

definition analyzeDataWithDeepSeek_v1 ::
  "backend \<Rightarrow> jsobj list \<Rightarrow> jsstring \<Rightarrow> app \<Rightarrow> jsstring \<times> app" where
  "analyzeDataWithDeepSeek_v1 backend rows columnName s =
     (let s = s\<lparr>apiStatus := BannerInfo\<rparr>;
          (outcome, s) = fetch backend (ColumnRequest_v1 columnName rows) s
      in case outcome of
           Ok (MessageContent (Some text)) \<Rightarrow>
             (if text \<noteq> [] then (text, s\<lparr>apiStatus := BannerSuccess\<rparr>)
              else (noResultText, s\<lparr>apiStatus := BannerError\<rparr>))
         | Ok _ \<Rightarrow> (noResultText, s\<lparr>apiStatus := BannerError\<rparr>)
         | _ \<Rightarrow> (analysisFailedText, s\<lparr>apiStatus := BannerError\<rparr>))"

text \<open>
  \<^verbatim>\<open>handleAnalyze\<close> of the earlier iteration. The column name is the title of the last column
  definition; reading it from an empty list throws inside the \<^verbatim>\<open>try\<close>, and the \<^verbatim>\<open>catch\<close>
  resets the flag.
\<close>

definition handleAnalyze_v1 :: "backend \<Rightarrow> nat \<Rightarrow> app \<Rightarrow> app run" where
  "handleAnalyze_v1 backend index s =
     (if \<not> index < length (tables s) then Uncaught
      else
        (let table = tables s ! index in
         if isAnalyzing table \<or> truthyStr (analysis table) then Finished s
         else
           (let table = table\<lparr>isAnalyzing := True\<rparr>;
                s = s\<lparr>tables := (tables s)[index := table]\<rparr>
            in if columns table = []
               then Finished (s\<lparr>tables := (tables s)[index := table\<lparr>isAnalyzing := False\<rparr>]\<rparr>)
               else
                 (let columnName = last (columns table);
                      (result, s) = analyzeDataWithDeepSeek_v1 backend (data table) columnName s
                  in Finished
                       (s\<lparr>tables := (tables s)[index :=
                             table\<lparr>analysis := Some result, isAnalyzing := False\<rparr>]\<rparr>)))))"

subsection \<open>Topic Classifier\<close>

text \<open>
  The field the classification is stored under, and the two fixed marks: the text returned
  for a blank content, and the text stored when the classification of a row failed.
\<close>

definition classificationField :: jsstring where
  "classificationField = [20849, 24615, 20869, 23481, 20998, 26512]"

definition emptyMarker :: jsstring where
  "emptyMarker = [20869, 23481, 20026, 31354]"

definition failedMarker :: jsstring where
  "failedMarker = [20998, 26512, 22833, 36133]"

text \<open>\<^verbatim>\<open>input.split(/[...]/).filter(topic => topic.trim())\<close>: the separators are the ideographic
  comma, the comma, the full-width comma and the line feed.\<close>

definition isTopicSeparator :: "nat \<Rightarrow> bool" where
  "isTopicSeparator c \<longleftrightarrow> c = 12289 \<or> c = 44 \<or> c = 65292 \<or> c = 10"

fun splitOn :: "(nat \<Rightarrow> bool) \<Rightarrow> jsstring \<Rightarrow> jsstring list" where
  "splitOn p [] = [[]]"
| "splitOn p (c # cs) =
     (if p c then [] # splitOn p cs
      else (case splitOn p cs of [] \<Rightarrow> [[c]] | piece # pieces \<Rightarrow> (c # piece) # pieces))"

definition splitTopics :: "jsstring \<Rightarrow> jsstring list" where
  "splitTopics input = filter (\<lambda>topic. trim topic \<noteq> []) (splitOn isTopicSeparator input)"

text \<open>
  \<^verbatim>\<open>analyzeTopicWithDeepSeek\<close>. A blank content returns the empty mark without a request. The
  client rejects on a transport failure and on a status outside 2xx; a body without a
  non-empty content throws the format error; the \<^verbatim>\<open>catch\<close> rethrows, so every failure leaves the
  function as an error. Calling \<^verbatim>\<open>trim\<close> on a number throws as well.
\<close>

definition topicResult :: "fetch_outcome \<Rightarrow> error_message + jsstring" where
  "topicResult outcome =
     (case outcome of
        Rejected msg \<Rightarrow> Inl (TopicFailed (Thrown msg))
      | NotOk status statusText \<Rightarrow>
          (if status = 401 then Inl AuthFailed
           else if status = 429 then Inl TooManyRequests
           else Inl (TopicFailed (RequestFailed None status statusText)))
      | Ok (MessageContent (Some result)) \<Rightarrow>
          (if result \<noteq> [] then Inr result else Inl (TopicFailed (FormatError None)))
      | Ok _ \<Rightarrow> Inl (TopicFailed (FormatError None)))"

definition analyzeTopicWithDeepSeek ::
  "backend \<Rightarrow> jsval \<Rightarrow> jsstring list \<Rightarrow> jsstring \<Rightarrow> app \<Rightarrow> (error_message + jsstring) \<times> app" where
  "analyzeTopicWithDeepSeek backend content topics columnName s =
     (case content of
        Undefined \<Rightarrow> (Inr emptyMarker, s)
      | Num n \<Rightarrow> (if n = 0 then (Inr emptyMarker, s) else (Inl (TopicFailed TrimNotAFunction), s))
      | Str cs \<Rightarrow>
          (if cs = [] \<or> trim cs = [] then (Inr emptyMarker, s)
           else (let (outcome, s) = fetch backend (TopicRequest columnName cs topics) s
                 in (topicResult outcome, s))))"

text \<open>
  \<^verbatim>\<open>newData[globalIndex] = { ...newData[globalIndex], [field]: mark }\<close> on the live state. Past
  the end of the array the assignment extends it; the holes are modelled as empty objects.
\<close>

definition setRowField :: "nat \<Rightarrow> jsstring \<Rightarrow> jsobj list \<Rightarrow> jsobj list" where
  "setRowField globalIndex mark rows =
     (if globalIndex < length rows
      then rows[globalIndex := put classificationField (Str mark) (rows ! globalIndex)]
      else rows @ replicate (globalIndex - length rows) [] @ [[(classificationField, Str mark)]])"

definition markRow :: "nat \<Rightarrow> nat \<Rightarrow> jsstring \<Rightarrow> app \<Rightarrow> app" where
  "markRow index globalIndex mark s =
     setTable index (\<lambda>t. t\<lparr>data := setRowField globalIndex mark (data t)\<rparr>) s"

text \<open>The body of the row loop, the row loop of one batch, and the batch loop.\<close>

definition classifyRow ::
  "backend \<Rightarrow> nat \<Rightarrow> ProcessedTable \<Rightarrow> jsstring list \<Rightarrow> nat \<Rightarrow> nat \<Rightarrow> nat \<Rightarrow> jsobj \<Rightarrow> app \<Rightarrow> app" where
  "classifyRow backend index currentTable topics batchIndex batchLength rowIndex row s =
     (let globalIndex = batchIndex * BATCH_SIZE + rowIndex;
          content = contentOf currentTable row
      in if truthy content then
           (let (r, s) = analyzeTopicWithDeepSeek backend content topics
                           (columnNameOf (name currentTable)) s
            in case r of
                 Inr result \<Rightarrow>
                   (let s = markRow index globalIndex result s
                    in if (rowIndex + 1) mod 5 = 0
                       then setTable index
                              (\<lambda>t. t\<lparr>topicsApiMessage :=
                                 Some (MsgRowsDone (batchIndex + 1) (rowIndex + 1) batchLength)\<rparr>) s
                       else s)
               | Inl err \<Rightarrow> markRow index globalIndex failedMarker s)
         else s)"

fun classifyRows ::
  "backend \<Rightarrow> nat \<Rightarrow> ProcessedTable \<Rightarrow> jsstring list \<Rightarrow> nat \<Rightarrow> nat \<Rightarrow> nat \<Rightarrow> jsobj list \<Rightarrow> app \<Rightarrow> app" where
  "classifyRows backend index currentTable topics batchIndex batchLength rowIndex [] s = s"
| "classifyRows backend index currentTable topics batchIndex batchLength rowIndex (row # rest) s =
     classifyRows backend index currentTable topics batchIndex batchLength (rowIndex + 1) rest
       (classifyRow backend index currentTable topics batchIndex batchLength rowIndex row s)"

fun classifyBatches ::
  "backend \<Rightarrow> nat \<Rightarrow> ProcessedTable \<Rightarrow> jsstring list \<Rightarrow> nat \<Rightarrow> nat \<Rightarrow> jsobj list list \<Rightarrow> app \<Rightarrow> app" where
  "classifyBatches backend index currentTable topics nBatches batchIndex [] s = s"
| "classifyBatches backend index currentTable topics nBatches batchIndex (batch # rest) s =
     (let s = setTable index
                (\<lambda>t. t\<lparr>topicsApiMessage := Some (MsgBatchRunning (batchIndex + 1) nBatches)\<rparr>) s;
          s = classifyRows backend index currentTable topics batchIndex (length batch) 0 batch s
      in classifyBatches backend index currentTable topics nBatches (batchIndex + 1) rest s)"

text \<open>The final call of the classification: its content is stored without being looked at.\<close>

definition topicsFinalResult :: "fetch_outcome \<Rightarrow> error_message + jsstring option" where
  "topicsFinalResult outcome =
     (case outcome of
        Rejected msg \<Rightarrow> Inl (Thrown msg)
      | NotOk status statusText \<Rightarrow> Inl (RequestFailed None status statusText)
      | Ok (BodyThrows msg) \<Rightarrow> Inl (Thrown msg)
      | Ok MissingMessage \<Rightarrow> Inl (FormatError None)
      | Ok (MessageContent c) \<Rightarrow> Inr c)"

text \<open>
  \<^verbatim>\<open>handleTopicsAnalysis\<close>. The rows sent with the final request are read from
  \<^verbatim>\<open>updatedTable\<close>, which is built from the \<^verbatim>\<open>tables\<close> the handler was created with and from
  \<^verbatim>\<open>currentTable.data\<close>, both taken before the first row was classified.
\<close>

definition handleTopicsAnalysis :: "backend \<Rightarrow> nat \<Rightarrow> app \<Rightarrow> app run" where
  "handleTopicsAnalysis backend index s0 =
     (if \<not> index < length (tables s0) then Uncaught
      else if isAnalyzingTopics (tables s0 ! index) then Finished s0
      else
        (let topics = splitTopics (commonTopicsInput s0) in
         if topics = [] then Finished s0
         else
           (let currentTable = tables s0 ! index;
                s = setTable index
                      (\<lambda>t. t\<lparr>isAnalyzingTopics := True, commonTopics := topics,
                              topicsApiStatus := Some StatusAnalyzing,
                              topicsApiMessage := Some MsgStarted\<rparr>) s0
            in case createBatches BATCH_SIZE (data currentTable) of
                 None \<Rightarrow> NoReturn
               | Some batches \<Rightarrow>
                  (let s = setTable index
                             (\<lambda>t. t\<lparr>topicsApiMessage :=
                                       Some (MsgBatchesCreated (length batches) BATCH_SIZE)\<rparr>) s;
                       s = classifyBatches backend index currentTable topics (length batches) 0
                             batches s;
                       s = setTable index (\<lambda>t. t\<lparr>topicsApiMessage := Some MsgSummarising\<rparr>) s;
                       updatedTables = mapIndexed
                           (\<lambda>i t. if i = index then t\<lparr>data := data currentTable\<rparr> else t) (tables s0);
                       updatedTable = updatedTables ! index;
                       analysisData = map (\<lambda>row. (userInfoOf row, contentOf currentTable row,
                                            or_else (get row classificationField) (Str [])))
                                        (data updatedTable);
                       (outcome, s) = fetch backend (TopicsSummaryRequest topics analysisData) s
                   in Finished
                       (case topicsFinalResult outcome of
                          Inr analysisResult \<Rightarrow>
                            (setTable index
                               (\<lambda>t. t\<lparr>isAnalyzingTopics := False, topicsAnalysis := analysisResult,
                                       topicsApiStatus := Some StatusSuccess,
                                       topicsApiMessage := Some MsgCompleted\<rparr>) s)
                              \<lparr>commonTopicsInput := []\<rparr>
                        | Inl err \<Rightarrow>
                            setTable index
                              (\<lambda>t. t\<lparr>isAnalyzingTopics := False, topicsApiStatus := Some StatusError,
                                      topicsApiMessage := Some (MsgFailed err)\<rparr>) s)))))"

subsection \<open>Specification wording and sample data\<close>

text \<open>The defining equations used to evaluate the model on concrete inputs.\<close>

named_theorems js_eval

lemmas [js_eval] = get_def put_def Object_keys_def or_else_def isWhiteSpace_def trim_def
  showInt_def lowerUnit_def toLowerCase_def sentinel_def key_field_def shouldSkipColumn_def
  validValue_def normalized_def uniqueValues_def hasEnoughUniqueValues_def skipPatterns_def
  shouldSkipColumn_v1_def uniqueValues_v1_def hasEnoughUniqueValues_v1_def allColumns_def
  firstThreeColumns_def remainingColumns_def remainingColumns_v1_def slice_def
  keepRow_def keepRow_v1_def projectRow_def mapIndexed_def tableData_def tableData_v1_def
  Let_def

text \<open>
  The admission test in the words of the specification, for a given admission predicate:
  the column is past the first three, passes the predicate, and after discarding the rows
  whose value is absent, empty or the sentinel, there are at least 10 distinct trimmed,
  stringified values.
\<close>

definition spec_isAnalyzable :: "(jsstring \<Rightarrow> bool) \<Rightarrow> jsobj list \<Rightarrow> jsstring \<Rightarrow> bool" where
  "spec_isAnalyzable skip jsonData col \<longleftrightarrow>
     col \<in> set (drop 3 (allColumns jsonData)) \<and> \<not> skip col
     \<and> 10 \<le> length (remdups (map normalized
                (filter (\<lambda>v. v \<noteq> Undefined \<and> v \<noteq> Str [] \<and> v \<noteq> Str sentinel)
                   (map (\<lambda>row. get row col) jsonData))))"

text \<open>Sample sheets: three identity columns and one free-text column \<^verbatim>\<open>Q1_text\<close>.\<close>

definition text_col :: jsstring where
  "text_col = [81, 49, 95, 116, 101, 120, 116]"

definition answerRow :: "jsstring \<Rightarrow> jsval \<Rightarrow> jsobj" where
  "answerRow first v = [(first, Str [65]), ([98], Num 0), ([99], Str []), (text_col, v)]"

definition nine_answers :: "jsobj list" where
  "nine_answers = map (answerRow [97])
     [Str [48], Str [49], Str [50], Str [51], Str [52], Str [53], Str [54], Str [55], Str [56]]"

definition ten_answers :: "jsobj list" where
  "ten_answers = nine_answers @ [answerRow [97] (Str [57])]"

lemmas [js_eval] = spec_isAnalyzable_def text_col_def answerRow_def nine_answers_def ten_answers_def

definition sheet_blank :: "jsobj list" where
  "sheet_blank = nine_answers @ [answerRow [97] (Str [32])]"

definition sheet_sentinel :: "jsobj list" where
  "sheet_sentinel = [answerRow [97] (Str sentinel), answerRow [97] (Str [48]), answerRow [97] (Str [])]"

definition sheet_key :: "jsobj list" where
  "sheet_key = [answerRow key_field (Str [48]), answerRow key_field (Str [49])]"

lemmas [js_eval] = sheet_blank_def sheet_sentinel_def sheet_key_def

subsection \<open>Auxiliary definitions and sample state\<close>

text \<open>The request sent for one batch, and the last step of \<^verbatim>\<open>handleAnalyze\<close> (the success
  update or the \<^verbatim>\<open>catch\<close> update) as functions of their own, for the proofs.\<close>

definition batchRequestOf :: "ProcessedTable \<Rightarrow> jsobj list \<Rightarrow> request" where
  "batchRequestOf currentTable batch = BatchRequest (map (\<lambda>row. (userInfoOf row, contentOf currentTable row)) batch)"

definition analysisFinished :: "nat \<Rightarrow> error_message + jsstring \<Rightarrow> app \<Rightarrow> app" where
  "analysisFinished index r s =
     (case r of
        Inr analysisResult \<Rightarrow>
          setTable index
            (\<lambda>t. t\<lparr>isAnalyzing := False, analysis := Some analysisResult,
                    analysisApiStatus := Some StatusSuccess,
                    analysisApiMessage := Some MsgCompleted\<rparr>) s
      | Inl err \<Rightarrow>
          setTable index
            (\<lambda>t. t\<lparr>isAnalyzing := False, analysisApiStatus := Some StatusError,
                    analysisApiMessage := Some (MsgFailed err)\<rparr>) s)"

text \<open>The requests logged when a handler has returned, and a sample state: one table with
  one row, fresh and already analysed, and four backends.\<close>

definition requestsOf :: "app run \<Rightarrow> request list" where
  "requestsOf r = (case r of Finished s \<Rightarrow> sent s | _ \<Rightarrow> [])"

definition sample_table :: ProcessedTable where
  "sample_table = newTable [[97], [98], [99]] text_col (tableData sheet_sentinel text_col)"

definition sample_app :: app where
  "sample_app = \<lparr> tables = [sample_table], commonTopicsInput = [116], apiStatus = BannerNone, sent = [] \<rparr>"

definition analyzed_app :: app where
  "analyzed_app = sample_app\<lparr>tables := [sample_table\<lparr>analysis := Some [79, 75]\<rparr>]\<rparr>"

definition backend_ok :: backend where
  "backend_ok k req = Ok (MessageContent (Some [79, 75]))"

definition backend_final_fails :: backend where
  "backend_final_fails k req =
     (case req of SummaryRequest results \<Rightarrow> NotOk 500 [] | _ \<Rightarrow> Ok (MessageContent (Some [79, 75])))"

definition backend_final_malformed :: backend where
  "backend_final_malformed k req =
     (case req of SummaryRequest results \<Rightarrow> Ok MissingMessage | _ \<Rightarrow> Ok (MessageContent (Some [79, 75])))"

definition backend_no_content :: backend where
  "backend_no_content k req =
     (case req of BatchRequest items \<Rightarrow> Ok (MessageContent None) | _ \<Rightarrow> Ok (MessageContent (Some [79, 75])))"

lemmas [js_eval] = requestsOf_def sample_table_def sample_app_def analyzed_app_def backend_ok_def
  backend_final_fails_def backend_final_malformed_def backend_no_content_def newTable_def tableName_def namePrefix_def
  countOpen_def countClose_def fetch_def setTable_def truthyStr_def isDigit_def
  stripNamePrefix_def stripCountSuffix_def columnNameOf_def nameField_def systemIdField_def
  userInfoOf_def contentOf_def batchOutputs_def finalResult_def handleAnalyze_def
  analyzeDisabled_def clickAnalyze_def createBatches_def BATCH_SIZE_def batch_loop.simps
  showNat.simps

subsection \<open>Auxiliary definitions for the earlier iteration\<close>

text \<open>
  The text \<^verbatim>\<open>analyzeDataWithDeepSeek\<close> of the earlier iteration resolves with, as a function of the
  outcome of its request; and a backend that is down.
\<close>

definition columnResult_v1 :: "fetch_outcome \<Rightarrow> jsstring" where
  "columnResult_v1 outcome =
     (case outcome of
        Ok (MessageContent (Some t)) \<Rightarrow> if t \<noteq> [] then t else noResultText
      | Ok _ \<Rightarrow> noResultText
      | _ \<Rightarrow> analysisFailedText)"

definition backend_down :: backend where
  "backend_down k req = Rejected [78]"

subsection \<open>Auxiliary definitions for the Topic Classifier\<close>

text \<open>
  The tables a handler run ends with.
\<close>

definition tablesOf :: "app run \<Rightarrow> ProcessedTable list" where
  "tablesOf r = (case r of Finished s \<Rightarrow> tables s | _ \<Rightarrow> [])"

lemmas [js_eval] = classificationField_def emptyMarker_def failedMarker_def isTopicSeparator_def
  splitTopics_def topicResult_def analyzeTopicWithDeepSeek_def setRowField_def markRow_def
  classifyRow_def topicsFinalResult_def handleTopicsAnalysis_def tablesOf_def


definition nonBlank :: "ProcessedTable \<Rightarrow> jsobj \<Rightarrow> bool" where
  "nonBlank currentTable row \<longleftrightarrow>
     (case contentOf currentTable row of Str cs \<Rightarrow> trim cs \<noteq> [] | _ \<Rightarrow> False)"







text \<open>
  Sample datasets: one built from a sheet with a blank answer and two answers with text, and
  one set by hand with a row whose text is empty; a backend that fails the classification of
  one answer, and the same backend with a failing aggregation.
\<close>

definition sheet_classify :: "jsobj list" where
  "sheet_classify = [answerRow [97] (Str [32]), answerRow [97] (Str [48]), answerRow [97] (Str [49])]"

definition classify_app :: app where
  "classify_app = \<lparr> tables = [newTable [[97], [98], [99]] text_col (tableData sheet_classify text_col)],
       commonTopicsInput = [116], apiStatus = BannerNone, sent = [] \<rparr>"

definition empty_text_app :: app where
  "empty_text_app = \<lparr> tables = [newTable [[97], [98], [99]] text_col
          [[(key_field, Num 0), (text_col, Str [])]]],
       commonTopicsInput = [116], apiStatus = BannerNone, sent = [] \<rparr>"

definition backend_flaky :: backend where
  "backend_flaky k req =
     (case req of
        TopicRequest columnName cs topics \<Rightarrow>
          if cs = [48] then NotOk 500 [] else Ok (MessageContent (Some [88]))
      | _ \<Rightarrow> Ok (MessageContent (Some [79, 75])))"

definition backend_flaky_down :: backend where
  "backend_flaky_down k req =
     (case req of
        TopicRequest columnName cs topics \<Rightarrow>
          if cs = [48] then NotOk 500 [] else Ok (MessageContent (Some [88]))
      | _ \<Rightarrow> NotOk 503 [])"

lemmas [js_eval] = sheet_classify_def classify_app_def empty_text_app_def backend_flaky_def
  backend_flaky_down_def nonBlank_def

section \<open>Properties\<close>

subsection \<open>Batcher\<close>

lemma batch_loop_chunks:
  "0 < n \<Longrightarrow> batch_loop n rows i bs = Some (bs @ chunks n (drop i rows))"
proof (induction "length rows - i" arbitrary: i bs rule: less_induct)
  case less
  show ?case
  proof (cases "i < length rows")
    case True
    then have "length rows - (i + n) < length rows - i"
      using less.prems by arith
    from less.hyps [OF this less.prems]
    have "batch_loop n rows (i + n) (bs @ [slice rows i (i + n)])
          = Some ((bs @ [slice rows i (i + n)]) @ chunks n (drop (i + n) rows))" .
    moreover have "chunks n (drop i rows) = take n (drop i rows) # chunks n (drop (i + n) rows)"
      using True less.prems by (subst chunks.simps) (simp add: add.commute)
    ultimately show ?thesis
      using True by (subst batch_loop.simps) (simp add: slice_def)
  next
    case False
    then show ?thesis
      by (subst batch_loop.simps) (simp add: chunks.simps)
  qed
qed

lemma concat_chunks: "0 < n \<Longrightarrow> concat (chunks n xs) = xs"
proof (induction n xs rule: chunks.induct)
  case (1 n xs)
  then show ?case by (subst chunks.simps) auto
qed

lemma length_chunks: "0 < n \<Longrightarrow> length (chunks n xs) = (length xs + n - 1) div n"
proof (induction n xs rule: chunks.induct)
  case (1 n xs)
  show ?case
  proof (cases "xs = []")
    case True
    then show ?thesis using "1.prems" by (subst chunks.simps) simp
  next
    case False
    then have len: "0 < length xs" by simp
    have ih: "length (chunks n (drop n xs)) = (length xs - n + n - 1) div n"
      using "1.IH" False "1.prems" by simp
    have unfold: "length (chunks n xs) = Suc (length (chunks n (drop n xs)))"
      using False "1.prems" by (subst chunks.simps) simp
    show ?thesis
    proof (cases "n \<le> length xs")
      case True
      then have "length xs + n - 1 = (length xs - n + n - 1) + n"
        using "1.prems" by arith
      then have "(length xs + n - 1) div n = Suc ((length xs - n + n - 1) div n)"
        using "1.prems" by (simp only: div_add_self2)
      then show ?thesis
        using unfold ih by simp
    next
      case short: False
      have "(length xs + n - 1) div n = 1"
      proof (rule div_nat_eqI)
        show "n * 1 \<le> length xs + n - 1" using len by arith
        show "length xs + n - 1 < n * Suc 1" using short by arith
      qed
      moreover have "(length xs - n + n - 1) div n = 0"
        using short "1.prems" by simp
      ultimately show ?thesis
        using unfold ih by simp
    qed
  qed
qed

lemma chunks_full: "0 < n \<Longrightarrow> Suc k < length (chunks n xs) \<Longrightarrow> length (chunks n xs ! k) = n"
proof (induction n xs arbitrary: k rule: chunks.induct)
  case (1 n xs)
  from "1.prems"(2) have ne: "xs \<noteq> []"
    by (subst (asm) chunks.simps) (auto split: if_splits)
  have eq: "chunks n xs = take n xs # chunks n (drop n xs)"
    using ne "1.prems"(1) by (subst chunks.simps) simp
  have rest: "chunks n (drop n xs) \<noteq> []"
    using "1.prems"(2) eq by auto
  then have "drop n xs \<noteq> []"
    by (subst (asm) chunks.simps) (auto split: if_splits)
  then have full: "length (take n xs) = n" by simp
  show ?case
  proof (cases k)
    case 0
    then show ?thesis using eq full by simp
  next
    case (Suc j)
    then have "Suc j < length (chunks n (drop n xs))"
      using "1.prems"(2) eq by simp
    then have "length (chunks n (drop n xs) ! j) = n"
      using "1.IH" ne "1.prems"(1) by simp
    then show ?thesis using eq Suc by simp
  qed
qed

lemma chunks_bounds: "0 < n \<Longrightarrow> b \<in> set (chunks n xs) \<Longrightarrow> b \<noteq> [] \<and> length b \<le> n"
proof (induction n xs rule: chunks.induct)
  case (1 n xs)
  from "1.prems"(2) have ne: "xs \<noteq> []"
    by (subst (asm) chunks.simps) (auto split: if_splits)
  have eq: "chunks n xs = take n xs # chunks n (drop n xs)"
    using ne "1.prems"(1) by (subst chunks.simps) simp
  from "1.prems"(2) eq have "b = take n xs \<or> b \<in> set (chunks n (drop n xs))" by simp
  then show ?case
  proof
    assume "b = take n xs"
    then show ?thesis using ne "1.prems"(1) by simp
  next
    assume "b \<in> set (chunks n (drop n xs))"
    then show ?thesis using "1.IH" ne "1.prems"(1) by simp
  qed
qed

text \<open>
  Claim C3. For every row sequence and every batch size \<open>n \<ge> 1\<close> the batch creation loop
  returns; concatenating the batches in order gives back the rows; the number of batches is
  \<open>\<lceil>length rows / n\<rceil>\<close> (so no batch for no rows); every batch but the last has exactly
  \<open>n\<close> rows, and every batch (the last included) is non-empty and has at most \<open>n\<close> rows.
\<close>

theorem batcher_lossless:
  assumes "1 \<le> n"
  shows "\<exists>bs. createBatches n rows = Some bs
            \<and> concat bs = rows
            \<and> length bs = (length rows + n - 1) div n
            \<and> (\<forall>k. Suc k < length bs \<longrightarrow> length (bs ! k) = n)
            \<and> (\<forall>b \<in> set bs. b \<noteq> [] \<and> length b \<le> n)"
proof -
  from assms have n: "0 < n" by simp
  have "createBatches n rows = Some (chunks n rows)"
    unfolding createBatches_def using batch_loop_chunks [OF n, of rows 0 "[]"] by simp
  then show ?thesis
    using concat_chunks [OF n] length_chunks [OF n] chunks_full [OF n] chunks_bounds [OF n]
    by blast
qed

theorem batcher_lossless_witness:
  "(1::nat) \<le> 2 \<and> (\<exists>bs. createBatches 2 [1::nat, 2, 3, 4, 5] = Some bs
      \<and> concat bs = [1, 2, 3, 4, 5] \<and> length bs = 3
      \<and> (\<forall>k. Suc k < length bs \<longrightarrow> length (bs ! k) = 2)
      \<and> (\<forall>b \<in> set bs. b \<noteq> [] \<and> length b \<le> 2))"
  using batcher_lossless [of 2 "[1::nat, 2, 3, 4, 5]"] by (simp add: numeral_3_eq_3)

subsection \<open>Column Selector\<close>

lemma get_put: "get (put k v row) k' = (if k' = k then v else get row k')"
  by (simp add: get_def put_def update_conv')

lemma get_fold_put:
  "get (fold (\<lambda>col newRow. put col (f col) newRow) cols row) c
     = (if c \<in> set cols then f c else get row c)"
  by (induction cols arbitrary: row) (auto simp: get_put)

lemma length_mapIndexed: "length (mapIndexed f xs) = length xs"
  by (simp add: mapIndexed_def)

lemma nth_mapIndexed: "i < length xs \<Longrightarrow> mapIndexed f xs ! i = f i (xs ! i)"
  by (simp add: mapIndexed_def nth_enumerate_eq)

lemma map_mapIndexed: "map g (mapIndexed f xs) = mapIndexed (\<lambda>i x. g (f i x)) xs"
  by (simp add: mapIndexed_def case_prod_unfold comp_def)

lemma mapIndexed_const: "mapIndexed (\<lambda>i x. g x) xs = map g xs"
  by (simp add: mapIndexed_def case_prod_unfold comp_def flip: map_map [of g snd, unfolded comp_def])

lemma get_projectRow_target: "get (projectRow ids column i row) column = get row column"
  by (simp add: projectRow_def get_put)

lemma get_projectRow_identity:
  "col \<in> set ids \<Longrightarrow> col \<noteq> column \<Longrightarrow>
   get (projectRow ids column i row) col = or_else (get row col) (Str [])"
  by (simp add: projectRow_def get_put get_fold_put)

lemma get_projectRow_key:
  "key_field \<notin> set ids \<Longrightarrow> key_field \<noteq> column \<Longrightarrow>
   get (projectRow ids column i row) key_field = Num (int i)"
  by (simp add: projectRow_def get_put get_fold_put) (simp add: get_def)

lemma length_uniqueValues:
  "length (uniqueValues rows col)
     = card {normalized v | v. v \<in> (\<lambda>row. get row col) ` set rows \<and> validValue v \<and> normalized v \<noteq> []}"
proof -
  have "set (uniqueValues rows col)
      = {normalized v | v. v \<in> (\<lambda>row. get row col) ` set rows \<and> validValue v \<and> normalized v \<noteq> []}"
    by (auto simp: uniqueValues_def)
  moreover have "distinct (uniqueValues rows col)"
    by (simp add: uniqueValues_def)
  ultimately show ?thesis
    by (metis distinct_card)
qed

lemma length_uniqueValues_v1:
  "length (uniqueValues_v1 rows col)
     = card {v. v \<in> (\<lambda>row. get row col) ` set rows \<and> v \<noteq> Undefined \<and> v \<noteq> Str []}"
proof -
  have "set (uniqueValues_v1 rows col)
      = {v. v \<in> (\<lambda>row. get row col) ` set rows \<and> v \<noteq> Undefined \<and> v \<noteq> Str []}"
    by (auto simp: uniqueValues_v1_def)
  moreover have "distinct (uniqueValues_v1 rows col)"
    by (simp add: uniqueValues_v1_def)
  ultimately show ?thesis
    by (metis distinct_card)
qed

text \<open>
  Claim C1, as amended. Later iteration (marker policy): a column is admitted iff it is past
  the first three, its name contains a marker, and at least 10 distinct values remain once
  the rows whose value is absent, empty or the sentinel are dropped, the values are trimmed or
  stringified, and the values that are empty after trimming are dropped too. Earlier iteration
  (blacklist policy): a column is admitted iff it is past the first three, matches no
  blacklist pattern, and has more than 10 distinct raw values that are neither absent nor
  empty (no sentinel test, no trimming).
\<close>

theorem column_admission:
  "(col \<in> set (remainingColumns jsonData) \<longleftrightarrow>
      col \<in> set (drop 3 (allColumns jsonData)) \<and> \<not> shouldSkipColumn col
      \<and> 10 \<le> card {normalized v | v. v \<in> (\<lambda>row. get row col) ` set jsonData
                          \<and> validValue v \<and> normalized v \<noteq> []})
   \<and> (col \<in> set (remainingColumns_v1 jsonData) \<longleftrightarrow>
      col \<in> set (drop 3 (allColumns jsonData)) \<and> \<not> shouldSkipColumn_v1 col
      \<and> 10 < card {v. v \<in> (\<lambda>row. get row col) ` set jsonData \<and> v \<noteq> Undefined \<and> v \<noteq> Str []})"
  unfolding remainingColumns_def remainingColumns_v1_def
    hasEnoughUniqueValues_def hasEnoughUniqueValues_v1_def
    length_uniqueValues length_uniqueValues_v1
  by auto

theorem column_admission_counterexample:
  "\<not> (text_col \<in> set (remainingColumns_v1 ten_answers)
        \<longleftrightarrow> spec_isAnalyzable shouldSkipColumn_v1 ten_answers text_col)
   \<and> \<not> (text_col \<in> set (remainingColumns sheet_blank)
        \<longleftrightarrow> spec_isAnalyzable shouldSkipColumn sheet_blank text_col)"
  by (simp add: js_eval)

theorem column_admission_witness:
  "10 \<le> card {normalized v | v. v \<in> (\<lambda>row. get row text_col) ` set ten_answers
                          \<and> validValue v \<and> normalized v \<noteq> []}
   \<and> \<not> 10 < card {v. v \<in> (\<lambda>row. get row text_col) ` set ten_answers
                          \<and> v \<noteq> Undefined \<and> v \<noteq> Str []}"
proof -
  have "text_col \<in> set (remainingColumns ten_answers)"
    by (simp add: js_eval)
  moreover have "text_col \<notin> set (remainingColumns_v1 ten_answers)"
    by (simp add: js_eval)
  moreover have "text_col \<in> set (drop 3 (allColumns ten_answers))"
    by (simp add: js_eval)
  moreover have "\<not> shouldSkipColumn_v1 text_col"
    by (simp add: js_eval)
  ultimately show ?thesis
    using column_admission [of text_col ten_answers] by blast
qed

subsection \<open>Row Projector\<close>

lemma keepRow_iff: "keepRow column row \<longleftrightarrow> get row column \<notin> {Undefined, Str [], Str sentinel}"
  by (simp add: keepRow_def Let_def)

lemma keepRow_v1_iff: "keepRow_v1 column row \<longleftrightarrow> get row column \<notin> {Undefined, Str []}"
  by (simp add: keepRow_v1_def Let_def)

lemma targets_tableData:
  "map (\<lambda>r. get r column) (mapIndexed (projectRow ids column) rows) = map (\<lambda>row. get row column) rows"
  by (simp add: map_mapIndexed get_projectRow_target mapIndexed_const)

lemma or_else_empty:
  "or_else v (Str []) = (case v of Undefined \<Rightarrow> Str [] | Str s \<Rightarrow> Str s | Num n \<Rightarrow> if n = 0 then Str [] else Num n)"
  by (cases v) (auto simp: or_else_def)

text \<open>
  Claim C2, as amended. Later iteration: the projector emits one record per row whose target
  value is neither absent, empty nor the sentinel, in source order, with the target value
  verbatim; the record carries the ordinal under \<^verbatim>\<open>key\<close> when no identity column and not the
  target column is itself named \<^verbatim>\<open>key\<close>, and for every identity column other than the target
  its value, replaced by the empty string when absent or falsy. Earlier iteration: the same
  (count, order, verbatim target, ordinal and identity values) for the rows whose target
  value is neither absent nor empty; rows holding the sentinel are emitted.
\<close>

theorem row_projector:
  "length (tableData jsonData column)
     = length (filter (\<lambda>row. get row column \<notin> {Undefined, Str [], Str sentinel}) jsonData)
   \<and> map (\<lambda>r. get r column) (tableData jsonData column)
     = filter (\<lambda>v. v \<notin> {Undefined, Str [], Str sentinel}) (map (\<lambda>row. get row column) jsonData)
   \<and> (\<forall>i < length (tableData jsonData column).
        (key_field \<notin> set (firstThreeColumns jsonData) \<and> key_field \<noteq> column
           \<longrightarrow> get (tableData jsonData column ! i) key_field = Num (int i))
        \<and> (\<forall>col \<in> set (firstThreeColumns jsonData). col \<noteq> column \<longrightarrow>
             get (tableData jsonData column ! i) col
               = (case get (filter (keepRow column) jsonData ! i) col of
                    Undefined \<Rightarrow> Str [] | Str s \<Rightarrow> Str s
                  | Num n \<Rightarrow> if n = 0 then Str [] else Num n)))
   \<and> map (\<lambda>r. get r column) (tableData_v1 jsonData column)
     = filter (\<lambda>v. v \<notin> {Undefined, Str []}) (map (\<lambda>row. get row column) jsonData)
   \<and> length (tableData_v1 jsonData column)
     = length (filter (\<lambda>row. get row column \<notin> {Undefined, Str []}) jsonData)
   \<and> (\<forall>i < length (tableData_v1 jsonData column).
        (key_field \<notin> set (firstThreeColumns jsonData) \<and> key_field \<noteq> column
           \<longrightarrow> get (tableData_v1 jsonData column ! i) key_field = Num (int i))
        \<and> (\<forall>col \<in> set (firstThreeColumns jsonData). col \<noteq> column \<longrightarrow>
             get (tableData_v1 jsonData column ! i) col
               = (case get (filter (keepRow_v1 column) jsonData ! i) col of
                    Undefined \<Rightarrow> Str [] | Str s \<Rightarrow> Str s
                  | Num n \<Rightarrow> if n = 0 then Str [] else Num n)))"
proof -
  have len: "length (tableData jsonData column)
     = length (filter (\<lambda>row. get row column \<notin> {Undefined, Str [], Str sentinel}) jsonData)"
    by (simp add: tableData_def length_mapIndexed keepRow_iff [abs_def])
  have tg: "map (\<lambda>r. get r column) (tableData jsonData column)
     = filter (\<lambda>v. v \<notin> {Undefined, Str [], Str sentinel}) (map (\<lambda>row. get row column) jsonData)"
    by (simp add: tableData_def targets_tableData keepRow_iff [abs_def] filter_map comp_def)
  have tg1: "map (\<lambda>r. get r column) (tableData_v1 jsonData column)
     = filter (\<lambda>v. v \<notin> {Undefined, Str []}) (map (\<lambda>row. get row column) jsonData)"
    by (simp add: tableData_v1_def targets_tableData keepRow_v1_iff [abs_def] filter_map comp_def)
  have rec: "\<forall>i < length (tableData jsonData column).
        (key_field \<notin> set (firstThreeColumns jsonData) \<and> key_field \<noteq> column
           \<longrightarrow> get (tableData jsonData column ! i) key_field = Num (int i))
        \<and> (\<forall>col \<in> set (firstThreeColumns jsonData). col \<noteq> column \<longrightarrow>
             get (tableData jsonData column ! i) col
               = (case get (filter (keepRow column) jsonData ! i) col of
                    Undefined \<Rightarrow> Str [] | Str s \<Rightarrow> Str s
                  | Num n \<Rightarrow> if n = 0 then Str [] else Num n))"
    by (simp add: tableData_def length_mapIndexed nth_mapIndexed get_projectRow_key
        get_projectRow_identity or_else_empty)
  have len1: "length (tableData_v1 jsonData column)
     = length (filter (\<lambda>row. get row column \<notin> {Undefined, Str []}) jsonData)"
    by (simp add: tableData_v1_def length_mapIndexed keepRow_v1_iff [abs_def])
  have rec1: "\<forall>i < length (tableData_v1 jsonData column).
        (key_field \<notin> set (firstThreeColumns jsonData) \<and> key_field \<noteq> column
           \<longrightarrow> get (tableData_v1 jsonData column ! i) key_field = Num (int i))
        \<and> (\<forall>col \<in> set (firstThreeColumns jsonData). col \<noteq> column \<longrightarrow>
             get (tableData_v1 jsonData column ! i) col
               = (case get (filter (keepRow_v1 column) jsonData ! i) col of
                    Undefined \<Rightarrow> Str [] | Str s \<Rightarrow> Str s
                  | Num n \<Rightarrow> if n = 0 then Str [] else Num n))"
    by (simp add: tableData_v1_def length_mapIndexed nth_mapIndexed get_projectRow_key
        get_projectRow_identity or_else_empty)
  from len tg rec tg1 len1 rec1 show ?thesis by (intro conjI)
qed

theorem row_projector_counterexample:
  "get (tableData_v1 sheet_sentinel text_col ! 0) text_col = Str sentinel
   \<and> get (tableData sheet_key text_col ! 1) key_field \<noteq> Num 1"
  by (simp add: js_eval)

theorem row_projector_witness:
  "length (tableData sheet_sentinel text_col) = 1
   \<and> map (\<lambda>r. get r text_col) (tableData sheet_sentinel text_col) = [Str [48]]
   \<and> get (tableData sheet_sentinel text_col ! 0) key_field = Num 0
   \<and> get (tableData sheet_sentinel text_col ! 0) [98] = Str []
   \<and> map (\<lambda>r. get r text_col) (tableData_v1 sheet_sentinel text_col) = [Str sentinel, Str [48]]
   \<and> length (tableData_v1 sheet_sentinel text_col) = 2
   \<and> get (tableData_v1 sheet_sentinel text_col ! 1) key_field = Num 1
   \<and> get (tableData_v1 sheet_sentinel text_col ! 1) [98] = Str []"
proof -
  have "length (tableData sheet_sentinel text_col) = 1"
    by (simp add: js_eval)
  moreover have "length (filter (\<lambda>row. get row text_col \<notin> {Undefined, Str []}) sheet_sentinel) = 2"
    by (simp add: js_eval)
  moreover have "get (filter (keepRow_v1 text_col) sheet_sentinel ! 1) [98] = Num 0"
    by (simp add: js_eval)
  moreover have "key_field \<notin> set (firstThreeColumns sheet_sentinel) \<and> key_field \<noteq> text_col"
    by (simp add: js_eval)
  moreover have "[98] \<in> set (firstThreeColumns sheet_sentinel) \<and> [98] \<noteq> text_col"
    by (simp add: js_eval)
  moreover have "get (filter (keepRow text_col) sheet_sentinel ! 0) [98] = Num 0"
    by (simp add: js_eval)
  moreover have "filter (\<lambda>v. v \<notin> {Undefined, Str [], Str sentinel})
                   (map (\<lambda>row. get row text_col) sheet_sentinel) = [Str [48]]"
    by (simp add: js_eval)
  moreover have "filter (\<lambda>v. v \<notin> {Undefined, Str []})
                   (map (\<lambda>row. get row text_col) sheet_sentinel) = [Str sentinel, Str [48]]"
    by (simp add: js_eval)
  ultimately show ?thesis
    using row_projector [of sheet_sentinel text_col] by simp
qed

subsection \<open>Batch Analyzer and Summarizer\<close>

lemma sent_setTable [simp]: "sent (setTable index f s) = sent s"
  by (simp add: setTable_def)

lemma length_tables_setTable [simp]: "length (tables (setTable index f s)) = length (tables s)"
  by (simp add: setTable_def length_mapIndexed)

lemma tables_setTable:
  "index < length (tables s) \<Longrightarrow> tables (setTable index f s) = (tables s)[index := f (tables s ! index)]"
  by (rule nth_equalityI) (auto simp: setTable_def length_mapIndexed nth_mapIndexed nth_list_update)

lemma setTable_id:
  "index < length (tables s) \<Longrightarrow> f (tables s ! index) = tables s ! index \<Longrightarrow> tables (setTable index f s) = tables s"
  by (simp add: tables_setTable)

lemma sent_fetch: "sent (snd (fetch backend req s)) = sent s @ [req]"
  by (simp add: fetch_def)

lemma tables_fetch [simp]: "tables (snd (fetch backend req s)) = tables s"
  by (simp add: fetch_def)

lemma fst_fetch: "fst (fetch backend req s) = backend (length (sent s)) req"
  by (simp add: fetch_def)

lemma processBatches_sent:
  "sent (snd (processBatches backend index cur n k batches (res, s)))
     = sent s @ map (batchRequestOf cur) batches"
proof (induction batches arbitrary: k res s)
  case Nil
  then show ?case by simp
next
  case (Cons batch rest)
  show ?case
    by (simp add: Let_def case_prod_unfold Cons.IH sent_fetch batchRequestOf_def)
qed

lemma processBatches_tables:
  "index < length (tables s) \<Longrightarrow>
   \<exists>m. tables (snd (processBatches backend index cur n k batches (res, s)))
        = (tables s)[index := (tables s ! index)\<lparr>analysisApiMessage := m\<rparr>]"
proof (induction batches arbitrary: k res s)
  case Nil
  have "(tables s)[index := (tables s ! index)\<lparr>analysisApiMessage := analysisApiMessage (tables s ! index)\<rparr>] = tables s"
    by simp
  then show ?case by (metis processBatches.simps(1) snd_conv)
next
  case (Cons batch rest)
  let ?s1 = "setTable index (\<lambda>t. t\<lparr>analysisApiMessage := Some (MsgBatchRunning (k + 1) n)\<rparr>) s"
  let ?req = "BatchRequest (map (\<lambda>row. (userInfoOf row, contentOf cur row)) batch)"
  let ?s2 = "snd (fetch backend ?req ?s1)"
  have len: "index < length (tables ?s2)" using Cons.prems by simp
  from Cons.IH [OF len, of "k + 1" "res @ batchOutputs k (fst (fetch backend ?req ?s1))"]
  obtain m where m: "tables (snd (processBatches backend index cur n (k + 1) rest
             (res @ batchOutputs k (fst (fetch backend ?req ?s1)), ?s2)))
           = (tables ?s2)[index := (tables ?s2 ! index)\<lparr>analysisApiMessage := m\<rparr>]"
    by blast
  have "tables ?s2 = (tables s)[index := (tables s ! index)\<lparr>analysisApiMessage := Some (MsgBatchRunning (k + 1) n)\<rparr>]"
    using Cons.prems by (simp add: tables_setTable)
  then have "(tables ?s2)[index := (tables ?s2 ! index)\<lparr>analysisApiMessage := m\<rparr>]
           = (tables s)[index := (tables s ! index)\<lparr>analysisApiMessage := m\<rparr>]"
    using Cons.prems by simp
  with m show ?case
    by (auto simp: Let_def case_prod_unfold)
qed

lemma processBatches_results_length:
  "length res + length batches \<le> length (fst (processBatches backend index cur n k batches (res, s)))"
proof (induction batches arbitrary: k res s)
  case Nil
  then show ?case by simp
next
  case (Cons batch rest)
  have one: "1 \<le> length (batchOutputs k outcome)" for outcome
    by (auto simp: batchOutputs_def split: fetch_outcome.splits response_body.splits option.splits)
  show ?case
    apply (simp add: Let_def case_prod_unfold)
    apply (rule order_trans [OF _ Cons.IH])
    using one apply (simp add: Suc_le_eq)
    done
qed

lemma createBatches_total: "\<exists>batches. createBatches BATCH_SIZE rows = Some batches \<and> length batches = (length rows + BATCH_SIZE - 1) div BATCH_SIZE"
proof -
  have pos: "0 < BATCH_SIZE" by (simp add: BATCH_SIZE_def)
  have "createBatches BATCH_SIZE rows = Some (chunks BATCH_SIZE rows)"
    unfolding createBatches_def using batch_loop_chunks [OF pos, of rows 0 "[]"] by simp
  then show ?thesis using length_chunks [OF pos] by simp
qed

lemma handleAnalyze_run:
  assumes idx: "index < length (tables s)" and idle: "\<not> isAnalyzing (tables s ! index)"
  shows "\<exists>batches results s3.
           createBatches BATCH_SIZE (data (tables s ! index)) = Some batches
         \<and> length batches = (length (data (tables s ! index)) + BATCH_SIZE - 1) div BATCH_SIZE
         \<and> results = fst (processBatches backend index (tables s ! index) (length batches) 0 batches
               ([], setTable index (\<lambda>t. t\<lparr>analysisApiMessage :=
                                    Some (MsgBatchesCreated (length batches) BATCH_SIZE)\<rparr>)
                     (setTable index (\<lambda>t. t\<lparr>isAnalyzing := True, analysisApiStatus := Some StatusAnalyzing,
                           analysisApiMessage := Some MsgStarted\<rparr>) s)))
         \<and> length batches \<le> length results
         \<and> sent s3 = sent s @ map (batchRequestOf (tables s ! index)) batches
         \<and> (\<exists>m. tables s3 = (tables s)[index := (tables s ! index)
               \<lparr>isAnalyzing := True, analysisApiStatus := Some StatusAnalyzing, analysisApiMessage := m\<rparr>])
         \<and> handleAnalyze backend index s
             = Finished (analysisFinished index
                 (finalResult (backend (length (sent s3)) (SummaryRequest results)))
                 (s3\<lparr>sent := sent s3 @ [SummaryRequest results]\<rparr>))"
proof -
  let ?cur = "tables s ! index"
  obtain batches where cb: "createBatches BATCH_SIZE (data ?cur) = Some batches"
    and nb: "length batches = (length (data ?cur) + BATCH_SIZE - 1) div BATCH_SIZE"
    using createBatches_total by blast
  let ?s1 = "setTable index (\<lambda>t. t\<lparr>isAnalyzing := True, analysisApiStatus := Some StatusAnalyzing,
                           analysisApiMessage := Some MsgStarted\<rparr>) s"
  let ?s2 = "setTable index (\<lambda>t. t\<lparr>analysisApiMessage :=
                                    Some (MsgBatchesCreated (length batches) BATCH_SIZE)\<rparr>) ?s1"
  let ?pb = "processBatches backend index ?cur (length batches) 0 batches ([], ?s2)"
  let ?s3 = "setTable index (\<lambda>t. t\<lparr>analysisApiMessage := Some MsgSummarising\<rparr>) (snd ?pb)"
  have idx2: "index < length (tables ?s2)" using idx by simp
  from processBatches_tables [OF idx2, of backend ?cur "length batches" 0 batches "[]"]
  obtain m where m: "tables (snd ?pb) = (tables ?s2)[index := (tables ?s2 ! index)\<lparr>analysisApiMessage := m\<rparr>]"
    by blast
  have t2: "tables ?s2 = (tables s)[index := ?cur\<lparr>isAnalyzing := True, analysisApiStatus := Some StatusAnalyzing,
                           analysisApiMessage := Some (MsgBatchesCreated (length batches) BATCH_SIZE)\<rparr>]"
    using idx by (simp add: tables_setTable)
  have tpb: "tables (snd ?pb) = (tables s)[index := ?cur\<lparr>isAnalyzing := True, analysisApiStatus := Some StatusAnalyzing,
                           analysisApiMessage := m\<rparr>]"
    using idx by (simp add: m t2)
  have idx3: "index < length (tables (snd ?pb))" using idx by (simp add: tpb)
  have t3: "tables ?s3 = (tables s)[index := ?cur\<lparr>isAnalyzing := True, analysisApiStatus := Some StatusAnalyzing,
                           analysisApiMessage := Some MsgSummarising\<rparr>]"
    using idx by (simp add: tables_setTable [OF idx3] tpb)
  have snt: "sent ?s3 = sent s @ map (batchRequestOf ?cur) batches"
    by (simp add: processBatches_sent)
  have len: "length batches \<le> length (fst ?pb)"
    using processBatches_results_length [of "[]" batches backend index ?cur "length batches" 0 ?s2] by simp
  have run: "handleAnalyze backend index s
             = Finished (analysisFinished index
                 (finalResult (backend (length (sent ?s3)) (SummaryRequest (fst ?pb))))
                 (?s3\<lparr>sent := sent ?s3 @ [SummaryRequest (fst ?pb)]\<rparr>))"
    using idx idle
    by (simp add: handleAnalyze_def cb Let_def case_prod_unfold fetch_def analysisFinished_def
        split: sum.split)
  from cb nb len snt t3 run show ?thesis by blast
qed

lemma handleAnalyze_final:
  assumes "index < length (tables s)" and "\<not> isAnalyzing (tables s ! index)"
  shows "\<exists>s' results.
           handleAnalyze backend index s = Finished s'
         \<and> sent s' \<noteq> [] \<and> last (sent s') = SummaryRequest results
         \<and> (\<forall>err. finalResult (backend (length (sent s') - 1) (last (sent s'))) = Inl err \<longrightarrow>
               analysisApiStatus (tables s' ! index) = Some StatusError
             \<and> analysisApiMessage (tables s' ! index) = Some (MsgFailed err)
             \<and> \<not> isAnalyzing (tables s' ! index)
             \<and> analysis (tables s' ! index) = analysis (tables s ! index))
         \<and> (\<forall>content. finalResult (backend (length (sent s') - 1) (last (sent s'))) = Inr content \<longrightarrow>
               analysisApiStatus (tables s' ! index) = Some StatusSuccess
             \<and> analysis (tables s' ! index) = Some content
             \<and> \<not> isAnalyzing (tables s' ! index))"
proof -
  from handleAnalyze_run [OF assms, of backend]
  obtain batches results s3 m where
    snt: "sent s3 = sent s @ map (batchRequestOf (tables s ! index)) batches" and
    tbl: "tables s3 = (tables s)[index := (tables s ! index)
               \<lparr>isAnalyzing := True, analysisApiStatus := Some StatusAnalyzing, analysisApiMessage := m\<rparr>]" and
    run: "handleAnalyze backend index s
             = Finished (analysisFinished index
                 (finalResult (backend (length (sent s3)) (SummaryRequest results)))
                 (s3\<lparr>sent := sent s3 @ [SummaryRequest results]\<rparr>))"
    by blast
  let ?s4 = "s3\<lparr>sent := sent s3 @ [SummaryRequest results]\<rparr>"
  let ?s' = "analysisFinished index (finalResult (backend (length (sent s3)) (SummaryRequest results))) ?s4"
  have snt': "sent ?s' = sent s3 @ [SummaryRequest results]"
    by (simp add: analysisFinished_def split: sum.splits)
  have idx4: "index < length (tables ?s4)" using assms(1) tbl by simp
  have good: "analysisApiStatus (tables ?s' ! index) = Some StatusSuccess
             \<and> analysis (tables ?s' ! index) = Some content
             \<and> \<not> isAnalyzing (tables ?s' ! index)"
    if "finalResult (backend (length (sent s3)) (SummaryRequest results)) = Inr content" for content
    using that assms(1) by (simp add: analysisFinished_def tables_setTable [OF idx4] tbl)
  have fail: "analysisApiStatus (tables ?s' ! index) = Some StatusError
             \<and> analysisApiMessage (tables ?s' ! index) = Some (MsgFailed err)
             \<and> \<not> isAnalyzing (tables ?s' ! index)
             \<and> analysis (tables ?s' ! index) = analysis (tables s ! index)"
    if "finalResult (backend (length (sent s3)) (SummaryRequest results)) = Inl err" for err
    using that assms(1) by (simp add: analysisFinished_def tables_setTable [OF idx4] tbl)
  show ?thesis
    using run snt' fail good by (intro exI [of _ ?s'] exI [of _ results]) (simp del: One_nat_def)
qed

text \<open>
  Claim C6. From an idle dataset \<^verbatim>\<open>handleAnalyze\<close> returns, and its last request is the
  aggregation request. Whenever the response to that request has a status outside 2xx, or a
  body without \<^verbatim>\<open>choices[0].message\<close> (or the transport rejects, the body cannot be read, or
  the content of the message is absent), whatever the batch requests gave, the dataset ends
  with the error status and the message of that error, is no longer analysing, and its
  analysis is what it was before the run. The analysis is set, with the success status, only
  when the response carries a content.
\<close>

theorem aggregation_failure_fails_run:
  assumes "index < length (tables s)" and "\<not> isAnalyzing (tables s ! index)"
  shows "\<exists>s' results.
           handleAnalyze backend index s = Finished s'
         \<and> sent s' \<noteq> [] \<and> last (sent s') = SummaryRequest results
         \<and> (\<forall>err.
               (\<exists>status statusText.
                   backend (length (sent s') - 1) (last (sent s')) = NotOk status statusText
                 \<and> err = RequestFailed None status statusText)
             \<or> (backend (length (sent s') - 1) (last (sent s')) = Ok MissingMessage
                 \<and> err = FormatError None)
             \<or> (\<exists>msg. (backend (length (sent s') - 1) (last (sent s')) = Rejected msg
                       \<or> backend (length (sent s') - 1) (last (sent s')) = Ok (BodyThrows msg))
                 \<and> err = Thrown msg)
             \<or> (backend (length (sent s') - 1) (last (sent s')) = Ok (MessageContent None)
                 \<and> err = LengthOfUndefined)
             \<longrightarrow>
               analysisApiStatus (tables s' ! index) = Some StatusError
             \<and> analysisApiMessage (tables s' ! index) = Some (MsgFailed err)
             \<and> \<not> isAnalyzing (tables s' ! index)
             \<and> analysis (tables s' ! index) = analysis (tables s ! index))
         \<and> (\<forall>content.
               backend (length (sent s') - 1) (last (sent s')) = Ok (MessageContent (Some content))
             \<longrightarrow>
               analysisApiStatus (tables s' ! index) = Some StatusSuccess
             \<and> analysis (tables s' ! index) = Some content
             \<and> \<not> isAnalyzing (tables s' ! index))"
proof -
  from handleAnalyze_final [OF assms, of backend]
  obtain s' results where
    run: "handleAnalyze backend index s = Finished s'" and
    ne: "sent s' \<noteq> []" and lst: "last (sent s') = SummaryRequest results" and
    failed: "\<And>err. finalResult (backend (length (sent s') - 1) (last (sent s'))) = Inl err \<Longrightarrow>
               analysisApiStatus (tables s' ! index) = Some StatusError
             \<and> analysisApiMessage (tables s' ! index) = Some (MsgFailed err)
             \<and> \<not> isAnalyzing (tables s' ! index)
             \<and> analysis (tables s' ! index) = analysis (tables s ! index)" and
    succeeded: "\<And>content. finalResult (backend (length (sent s') - 1) (last (sent s'))) = Inr content \<Longrightarrow>
               analysisApiStatus (tables s' ! index) = Some StatusSuccess
             \<and> analysis (tables s' ! index) = Some content
             \<and> \<not> isAnalyzing (tables s' ! index)"
    by blast
  let ?o = "backend (length (sent s') - 1) (last (sent s'))"
  have f1: "finalResult ?o = Inl (RequestFailed None status statusText)"
    if "?o = NotOk status statusText" for status statusText
    using that by (simp add: finalResult_def)
  have f2: "finalResult ?o = Inl (FormatError None)" if "?o = Ok MissingMessage"
    using that by (simp add: finalResult_def)
  have f3: "finalResult ?o = Inl (Thrown msg)" if "?o = Rejected msg \<or> ?o = Ok (BodyThrows msg)" for msg
    using that by (auto simp: finalResult_def)
  have f4: "finalResult ?o = Inl LengthOfUndefined" if "?o = Ok (MessageContent None)"
    using that by (simp add: finalResult_def)
  have f5: "finalResult ?o = Inr content" if "?o = Ok (MessageContent (Some content))" for content
    using that by (simp add: finalResult_def)
  have fails: "analysisApiStatus (tables s' ! index) = Some StatusError
             \<and> analysisApiMessage (tables s' ! index) = Some (MsgFailed err)
             \<and> \<not> isAnalyzing (tables s' ! index)
             \<and> analysis (tables s' ! index) = analysis (tables s ! index)"
    if "(\<exists>status statusText. ?o = NotOk status statusText \<and> err = RequestFailed None status statusText)
        \<or> (?o = Ok MissingMessage \<and> err = FormatError None)
        \<or> (\<exists>msg. (?o = Rejected msg \<or> ?o = Ok (BodyThrows msg)) \<and> err = Thrown msg)
        \<or> (?o = Ok (MessageContent None) \<and> err = LengthOfUndefined)" for err
    using that f1 f2 f3 f4 failed [of err] by blast
  have succeeds: "analysisApiStatus (tables s' ! index) = Some StatusSuccess
             \<and> analysis (tables s' ! index) = Some content
             \<and> \<not> isAnalyzing (tables s' ! index)"
    if "?o = Ok (MessageContent (Some content))" for content
    using f5 [OF that] succeeded by blast
  from run ne lst fails succeeds show ?thesis by blast
qed

lemma processBatches_results_exact:
  assumes "\<forall>k req. backend k req \<noteq> Ok (MessageContent None)"
  shows "length (fst (processBatches backend index cur n k batches (res, s))) = length res + length batches"
proof (induction batches arbitrary: k res s)
  case Nil
  then show ?case by simp
next
  case (Cons batch rest)
  have one: "length (batchOutputs k (backend j req)) = 1" for j req
    using assms [rule_format, of j req]
    by (auto simp: batchOutputs_def split: fetch_outcome.splits response_body.splits option.splits)
  show ?case
    by (simp add: Let_def case_prod_unfold Cons.IH fetch_def one)
qed

text \<open>
  Batch failures are absorbed: when no 2xx response has a message without content, every batch
  is requested, the aggregation request carries one entry per batch, and the run ends with
  the success status whenever the aggregation request succeeds.
\<close>

lemma batch_failures_absorbed:
  assumes "index < length (tables s)" and "\<not> isAnalyzing (tables s ! index)"
    and "\<forall>k req. backend k req \<noteq> Ok (MessageContent None)"
  shows "\<exists>s' results.
           handleAnalyze backend index s = Finished s'
         \<and> length (sent s') = length (sent s)
              + (length (data (tables s ! index)) + BATCH_SIZE - 1) div BATCH_SIZE + 1
         \<and> last (sent s') = SummaryRequest results
         \<and> length results = (length (data (tables s ! index)) + BATCH_SIZE - 1) div BATCH_SIZE
         \<and> (\<forall>text. finalResult (backend (length (sent s') - 1) (last (sent s'))) = Inr text \<longrightarrow>
               analysisApiStatus (tables s' ! index) = Some StatusSuccess
             \<and> analysis (tables s' ! index) = Some text)"
proof -
  from handleAnalyze_run [OF assms(1,2), of backend]
  obtain batches results s3 m where
    nb: "length batches = (length (data (tables s ! index)) + BATCH_SIZE - 1) div BATCH_SIZE" and
    res: "results = fst (processBatches backend index (tables s ! index) (length batches) 0 batches
               ([], setTable index (\<lambda>t. t\<lparr>analysisApiMessage :=
                                    Some (MsgBatchesCreated (length batches) BATCH_SIZE)\<rparr>)
                     (setTable index (\<lambda>t. t\<lparr>isAnalyzing := True, analysisApiStatus := Some StatusAnalyzing,
                           analysisApiMessage := Some MsgStarted\<rparr>) s)))" and
    snt: "sent s3 = sent s @ map (batchRequestOf (tables s ! index)) batches" and
    tbl: "tables s3 = (tables s)[index := (tables s ! index)
               \<lparr>isAnalyzing := True, analysisApiStatus := Some StatusAnalyzing, analysisApiMessage := m\<rparr>]" and
    run: "handleAnalyze backend index s
             = Finished (analysisFinished index
                 (finalResult (backend (length (sent s3)) (SummaryRequest results)))
                 (s3\<lparr>sent := sent s3 @ [SummaryRequest results]\<rparr>))"
    by blast
  let ?s4 = "s3\<lparr>sent := sent s3 @ [SummaryRequest results]\<rparr>"
  let ?s' = "analysisFinished index (finalResult (backend (length (sent s3)) (SummaryRequest results))) ?s4"
  have snt': "sent ?s' = sent s3 @ [SummaryRequest results]"
    by (simp add: analysisFinished_def split: sum.splits)
  have idx4: "index < length (tables ?s4)" using assms(1) tbl by simp
  have lres: "length results = length batches"
    unfolding res using processBatches_results_exact [OF assms(3), where res = "[]"] by simp
  have ok: "analysisApiStatus (tables ?s' ! index) = Some StatusSuccess
             \<and> analysis (tables ?s' ! index) = Some text"
    if "finalResult (backend (length (sent s3)) (SummaryRequest results)) = Inr text" for "text"
    using that assms(1) by (simp add: analysisFinished_def tables_setTable [OF idx4] tbl)
  show ?thesis
    using run snt' ok lres nb snt
    by (intro exI [of _ ?s'] exI [of _ results]) (simp del: One_nat_def)
qed

text \<open>
  Claim C5 at the failing input: one batch, answered by a 2xx response whose message has no
  content. The absent content is pushed, reading its length throws inside the \<^verbatim>\<open>try\<close>, and the
  placeholder is pushed too: the aggregation request carries two entries for the one batch.
\<close>

theorem placeholder_failing: "last (requestsOf (handleAnalyze backend_no_content 0 sample_app))
     = SummaryRequest [BatchContent None, BatchFailed 1 LengthOfUndefined]"
  by (simp add: js_eval)

theorem aggregation_failure_fails_run_witness:
  "0 < length (tables sample_app) \<and> \<not> isAnalyzing (tables sample_app ! 0)
   \<and> (\<exists>s'. handleAnalyze backend_final_fails 0 sample_app = Finished s'
         \<and> analysisApiStatus (tables s' ! 0) = Some StatusError
         \<and> analysisApiMessage (tables s' ! 0) = Some (MsgFailed (RequestFailed None 500 []))
         \<and> \<not> isAnalyzing (tables s' ! 0)
         \<and> analysis (tables s' ! 0) = None)
   \<and> (\<exists>s'. handleAnalyze backend_final_malformed 0 sample_app = Finished s'
         \<and> analysisApiStatus (tables s' ! 0) = Some StatusError
         \<and> analysisApiMessage (tables s' ! 0) = Some (MsgFailed (FormatError None))
         \<and> \<not> isAnalyzing (tables s' ! 0)
         \<and> analysis (tables s' ! 0) = None)
   \<and> (\<exists>s'. handleAnalyze backend_ok 0 sample_app = Finished s'
         \<and> analysisApiStatus (tables s' ! 0) = Some StatusSuccess
         \<and> analysis (tables s' ! 0) = Some [79, 75])"
proof -
  have idx: "0 < length (tables sample_app)" and idle: "\<not> isAnalyzing (tables sample_app ! 0)"
    and none: "analysis (tables sample_app ! 0) = None"
    by (simp_all add: sample_app_def sample_table_def newTable_def)
  have a: "\<exists>s'. handleAnalyze backend_final_fails 0 sample_app = Finished s'
         \<and> analysisApiStatus (tables s' ! 0) = Some StatusError
         \<and> analysisApiMessage (tables s' ! 0) = Some (MsgFailed (RequestFailed None 500 []))
         \<and> \<not> isAnalyzing (tables s' ! 0)
         \<and> analysis (tables s' ! 0) = None"
  proof -
    from aggregation_failure_fails_run [OF idx idle, of backend_final_fails]
    obtain s' results where all: "handleAnalyze backend_final_fails 0 sample_app = Finished s'
         \<and> sent s' \<noteq> [] \<and> last (sent s') = SummaryRequest results
         \<and> (\<forall>err.
               (\<exists>status statusText.
                   backend_final_fails (length (sent s') - 1) (last (sent s')) = NotOk status statusText
                 \<and> err = RequestFailed None status statusText)
             \<or> (backend_final_fails (length (sent s') - 1) (last (sent s')) = Ok MissingMessage
                 \<and> err = FormatError None)
             \<or> (\<exists>msg. (backend_final_fails (length (sent s') - 1) (last (sent s')) = Rejected msg
                       \<or> backend_final_fails (length (sent s') - 1) (last (sent s')) = Ok (BodyThrows msg))
                 \<and> err = Thrown msg)
             \<or> (backend_final_fails (length (sent s') - 1) (last (sent s')) = Ok (MessageContent None)
                 \<and> err = LengthOfUndefined)
             \<longrightarrow>
               analysisApiStatus (tables s' ! 0) = Some StatusError
             \<and> analysisApiMessage (tables s' ! 0) = Some (MsgFailed err)
             \<and> \<not> isAnalyzing (tables s' ! 0)
             \<and> analysis (tables s' ! 0) = analysis (tables sample_app ! 0))
         \<and> (\<forall>content.
               backend_final_fails (length (sent s') - 1) (last (sent s')) = Ok (MessageContent (Some content))
             \<longrightarrow>
               analysisApiStatus (tables s' ! 0) = Some StatusSuccess
             \<and> analysis (tables s' ! 0) = Some content
             \<and> \<not> isAnalyzing (tables s' ! 0))"
      by (elim exE) (rule that)
    then have lst: "last (sent s') = SummaryRequest results" by simp
    have out: "backend_final_fails (length (sent s') - 1) (last (sent s')) = NotOk 500 []"
      by (simp add: lst backend_final_fails_def)
    from all none show ?thesis
      unfolding out by (intro exI [of _ s']) simp
  qed
  have b: "\<exists>s'. handleAnalyze backend_final_malformed 0 sample_app = Finished s'
         \<and> analysisApiStatus (tables s' ! 0) = Some StatusError
         \<and> analysisApiMessage (tables s' ! 0) = Some (MsgFailed (FormatError None))
         \<and> \<not> isAnalyzing (tables s' ! 0)
         \<and> analysis (tables s' ! 0) = None"
  proof -
    from aggregation_failure_fails_run [OF idx idle, of backend_final_malformed]
    obtain s' results where all: "handleAnalyze backend_final_malformed 0 sample_app = Finished s'
         \<and> sent s' \<noteq> [] \<and> last (sent s') = SummaryRequest results
         \<and> (\<forall>err.
               (\<exists>status statusText.
                   backend_final_malformed (length (sent s') - 1) (last (sent s')) = NotOk status statusText
                 \<and> err = RequestFailed None status statusText)
             \<or> (backend_final_malformed (length (sent s') - 1) (last (sent s')) = Ok MissingMessage
                 \<and> err = FormatError None)
             \<or> (\<exists>msg. (backend_final_malformed (length (sent s') - 1) (last (sent s')) = Rejected msg
                       \<or> backend_final_malformed (length (sent s') - 1) (last (sent s')) = Ok (BodyThrows msg))
                 \<and> err = Thrown msg)
             \<or> (backend_final_malformed (length (sent s') - 1) (last (sent s')) = Ok (MessageContent None)
                 \<and> err = LengthOfUndefined)
             \<longrightarrow>
               analysisApiStatus (tables s' ! 0) = Some StatusError
             \<and> analysisApiMessage (tables s' ! 0) = Some (MsgFailed err)
             \<and> \<not> isAnalyzing (tables s' ! 0)
             \<and> analysis (tables s' ! 0) = analysis (tables sample_app ! 0))
         \<and> (\<forall>content.
               backend_final_malformed (length (sent s') - 1) (last (sent s')) = Ok (MessageContent (Some content))
             \<longrightarrow>
               analysisApiStatus (tables s' ! 0) = Some StatusSuccess
             \<and> analysis (tables s' ! 0) = Some content
             \<and> \<not> isAnalyzing (tables s' ! 0))"
      by (elim exE) (rule that)
    then have lst: "last (sent s') = SummaryRequest results" by simp
    have out: "backend_final_malformed (length (sent s') - 1) (last (sent s')) = Ok MissingMessage"
      by (simp add: lst backend_final_malformed_def)
    from all none show ?thesis
      unfolding out by (intro exI [of _ s']) simp
  qed
  have c: "\<exists>s'. handleAnalyze backend_ok 0 sample_app = Finished s'
         \<and> analysisApiStatus (tables s' ! 0) = Some StatusSuccess
         \<and> analysis (tables s' ! 0) = Some [79, 75]"
  proof -
    from aggregation_failure_fails_run [OF idx idle, of backend_ok]
    obtain s' results where all: "handleAnalyze backend_ok 0 sample_app = Finished s'
         \<and> sent s' \<noteq> [] \<and> last (sent s') = SummaryRequest results
         \<and> (\<forall>err.
               (\<exists>status statusText.
                   backend_ok (length (sent s') - 1) (last (sent s')) = NotOk status statusText
                 \<and> err = RequestFailed None status statusText)
             \<or> (backend_ok (length (sent s') - 1) (last (sent s')) = Ok MissingMessage
                 \<and> err = FormatError None)
             \<or> (\<exists>msg. (backend_ok (length (sent s') - 1) (last (sent s')) = Rejected msg
                       \<or> backend_ok (length (sent s') - 1) (last (sent s')) = Ok (BodyThrows msg))
                 \<and> err = Thrown msg)
             \<or> (backend_ok (length (sent s') - 1) (last (sent s')) = Ok (MessageContent None)
                 \<and> err = LengthOfUndefined)
             \<longrightarrow>
               analysisApiStatus (tables s' ! 0) = Some StatusError
             \<and> analysisApiMessage (tables s' ! 0) = Some (MsgFailed err)
             \<and> \<not> isAnalyzing (tables s' ! 0)
             \<and> analysis (tables s' ! 0) = analysis (tables sample_app ! 0))
         \<and> (\<forall>content.
               backend_ok (length (sent s') - 1) (last (sent s')) = Ok (MessageContent (Some content))
             \<longrightarrow>
               analysisApiStatus (tables s' ! 0) = Some StatusSuccess
             \<and> analysis (tables s' ! 0) = Some content
             \<and> \<not> isAnalyzing (tables s' ! 0))"
      by (elim exE) (rule that)
    then have lst: "last (sent s') = SummaryRequest results" by simp
    have out: "backend_ok (length (sent s') - 1) (last (sent s')) = Ok (MessageContent (Some [79, 75]))"
      by (simp add: lst backend_ok_def)
    from all none show ?thesis
      unfolding out by (intro exI [of _ s']) simp
  qed
  from idx idle a b c show ?thesis by (intro conjI)
qed

text \<open>
  Claim C4, as amended. \<^verbatim>\<open>handleAnalyze\<close> of the later iteration is a no-op (state and request
  log unchanged) on a dataset that is mid-run. On a dataset that is mid-run or has a non-empty
  analysis, a click on the analyse button of the later iteration is a no-op, because the button
  is disabled, and \<^verbatim>\<open>handleAnalyze\<close> of the earlier iteration is a no-op, because of its guard.
\<close>

theorem analysis_guard:
  assumes "index < length (tables s)"
  shows "(isAnalyzing (tables s ! index) \<longrightarrow> handleAnalyze backend index s = Finished s)
       \<and> (isAnalyzing (tables s ! index) \<or> truthyStr (analysis (tables s ! index)) \<longrightarrow>
            clickAnalyze backend index s = Finished s
          \<and> handleAnalyze_v1 backend index s = Finished s)"
  using assms by (simp add: handleAnalyze_def clickAnalyze_def handleAnalyze_v1_def analyzeDisabled_def Let_def)

theorem analysis_guard_counterexample:
  "truthyStr (analysis (tables analyzed_app ! 0))
   \<and> requestsOf (Finished analyzed_app) = []
   \<and> length (requestsOf (handleAnalyze backend_ok 0 analyzed_app)) = 2"
  by (simp add: js_eval)

theorem analysis_guard_witness:
  "0 < length (tables analyzed_app) \<and> truthyStr (analysis (tables analyzed_app ! 0))
   \<and> clickAnalyze backend_ok 0 analyzed_app = Finished analyzed_app
   \<and> handleAnalyze_v1 backend_ok 0 analyzed_app = Finished analyzed_app"
proof -
  have "0 < length (tables analyzed_app)" and "truthyStr (analysis (tables analyzed_app ! 0))"
    by (simp_all add: analyzed_app_def sample_app_def truthyStr_def)
  then show ?thesis
    using analysis_guard [of 0 analyzed_app backend_ok] by simp
qed

subsection \<open>Earlier iteration: the column analysis never rejects\<close>

lemma columnResult_v1_nonempty: "columnResult_v1 outcome \<noteq> []"
  by (auto simp: columnResult_v1_def noResultText_def analysisFailedText_def
      split: fetch_outcome.splits response_body.splits option.splits)

lemma analyzeDataWithDeepSeek_v1_result:
  "fst (analyzeDataWithDeepSeek_v1 backend rows columnName s)
     = columnResult_v1 (backend (length (sent s)) (ColumnRequest_v1 columnName rows))"
  by (auto simp: analyzeDataWithDeepSeek_v1_def columnResult_v1_def fetch_def Let_def
      split: fetch_outcome.splits response_body.splits option.splits)

lemma analyzeDataWithDeepSeek_v1_state:
  "sent (snd (analyzeDataWithDeepSeek_v1 backend rows columnName s))
     = sent s @ [ColumnRequest_v1 columnName rows]
   \<and> tables (snd (analyzeDataWithDeepSeek_v1 backend rows columnName s)) = tables s"
  by (auto simp: analyzeDataWithDeepSeek_v1_def fetch_def Let_def
      split: fetch_outcome.splits response_body.splits option.splits)

lemma handleAnalyze_v1_guard:
  "index < length (tables s) \<Longrightarrow> truthyStr (analysis (tables s ! index)) \<Longrightarrow>
   handleAnalyze_v1 backend index s = Finished s"
  by (simp add: handleAnalyze_v1_def Let_def)

text \<open>
  Claim C10. Earlier iteration, on a dataset that is neither mid-run nor analysed: whatever the
  backend does, \<^verbatim>\<open>handleAnalyze\<close> returns after exactly one request; the text stored as the
  analysis is the content of the response when there is a non-empty one, and otherwise one of
  the two fixed fallback texts; it is never empty; the only change to the dataset is that text
  and the reset flag (the dataset has no status field, the error is shown in the banner only);
  and every later call of the handler on that dataset is a no-op.
\<close>

theorem column_analysis_never_rejects_v1:
  assumes "index < length (tables s)" and "\<not> isAnalyzing (tables s ! index)"
    and "\<not> truthyStr (analysis (tables s ! index))" and "columns (tables s ! index) \<noteq> []"
  shows "\<exists>s' result.
           handleAnalyze_v1 backend index s = Finished s'
         \<and> sent s' = sent s @ [ColumnRequest_v1 (last (columns (tables s ! index))) (data (tables s ! index))]
         \<and> result = (case backend (length (sent s)) (last (sent s')) of
                        Ok (MessageContent (Some t)) \<Rightarrow> if t \<noteq> [] then t else noResultText
                      | Ok _ \<Rightarrow> noResultText
                      | _ \<Rightarrow> analysisFailedText)
         \<and> result \<noteq> []
         \<and> tables s' = (tables s)[index := (tables s ! index)\<lparr>analysis := Some result, isAnalyzing := False\<rparr>]
         \<and> (\<forall>backend'. handleAnalyze_v1 backend' index s' = Finished s')"
proof -
  let ?t = "tables s ! index"
  let ?t1 = "?t\<lparr>isAnalyzing := True\<rparr>"
  let ?s1 = "s\<lparr>tables := (tables s)[index := ?t1]\<rparr>"
  let ?req = "ColumnRequest_v1 (last (columns ?t)) (data ?t)"
  let ?a = "analyzeDataWithDeepSeek_v1 backend (data ?t) (last (columns ?t)) ?s1"
  let ?result = "columnResult_v1 (backend (length (sent s)) ?req)"
  let ?s' = "(snd ?a)\<lparr>tables := (tables (snd ?a))[index := ?t1\<lparr>analysis := Some (fst ?a), isAnalyzing := False\<rparr>]\<rparr>"
  have run: "handleAnalyze_v1 backend index s = Finished ?s'"
    using assms by (simp add: handleAnalyze_v1_def Let_def case_prod_unfold)
  have res: "fst ?a = ?result"
    by (simp add: analyzeDataWithDeepSeek_v1_result)
  have st: "sent (snd ?a) = sent s @ [?req]" "tables (snd ?a) = (tables s)[index := ?t1]"
    using analyzeDataWithDeepSeek_v1_state [of backend "data ?t" "last (columns ?t)" ?s1] by simp_all
  have snt: "sent ?s' = sent s @ [?req]"
    by (simp add: st)
  have tbl: "tables ?s' = (tables s)[index := ?t\<lparr>analysis := Some ?result, isAnalyzing := False\<rparr>]"
    by (simp add: st res)
  have "index < length (tables ?s')" and "truthyStr (analysis (tables ?s' ! index))"
    using assms(1) columnResult_v1_nonempty [of "backend (length (sent s)) ?req"]
    unfolding tbl by (simp_all add: truthyStr_def)
  then have again: "handleAnalyze_v1 backend' index ?s' = Finished ?s'" for backend'
    by (rule handleAnalyze_v1_guard)
  have "?result = (case backend (length (sent s)) (last (sent ?s')) of
                        Ok (MessageContent (Some t)) \<Rightarrow> if t \<noteq> [] then t else noResultText
                      | Ok _ \<Rightarrow> noResultText
                      | _ \<Rightarrow> analysisFailedText)"
    by (simp add: st columnResult_v1_def)
  with run snt tbl again columnResult_v1_nonempty [of "backend (length (sent s)) ?req"]
  show ?thesis by blast
qed

theorem column_analysis_never_rejects_v1_witness:
  "0 < length (tables sample_app) \<and> \<not> isAnalyzing (tables sample_app ! 0)
   \<and> \<not> truthyStr (analysis (tables sample_app ! 0)) \<and> columns (tables sample_app ! 0) \<noteq> []
   \<and> (\<exists>s'. handleAnalyze_v1 backend_down 0 sample_app = Finished s'
         \<and> tables s' = [sample_table\<lparr>analysis := Some analysisFailedText, isAnalyzing := False\<rparr>]
         \<and> length (sent s') = 1
         \<and> handleAnalyze_v1 backend_ok 0 s' = Finished s')"
proof -
  have pre: "0 < length (tables sample_app)" "\<not> isAnalyzing (tables sample_app ! 0)"
    "\<not> truthyStr (analysis (tables sample_app ! 0))" "columns (tables sample_app ! 0) \<noteq> []"
    by (simp_all add: sample_app_def sample_table_def newTable_def truthyStr_def)
  from column_analysis_never_rejects_v1 [OF pre, of backend_down]
  show ?thesis
    using pre by (auto simp: backend_down_def sample_app_def)
qed

subsection \<open>Topic Classifier: the aggregation payload\<close>

text \<open>
  Claim C8 at the failing input: one row, whose classification request succeeds. The row in
  the live state carries the classification, but the record sent with the aggregation request
  has an empty classification: the payload is built from the table as it was before the run.
\<close>

theorem stale_rows_failing:
  "last (requestsOf (handleTopicsAnalysis backend_ok 0 sample_app))
     = TopicsSummaryRequest [[116]] [([45], Str [48], Str [])]
   \<and> map (\<lambda>row. get row classificationField)
       (data (tablesOf (handleTopicsAnalysis backend_ok 0 sample_app) ! 0)) = [Str [79, 75]]"
  by (simp add: js_eval)

subsection \<open>Topic Classifier: rows are classified independently\<close>

lemma trim_Nil [simp]: "trim [] = []"
  by (simp add: trim_def)













text \<open>
  Rows of a table built by \<^verbatim>\<open>processExcelFile\<close> from a sheet whose cells in the column are
  strings have a non-empty text, read back through the column name recovered from the table
  name: on such tables only the blank and the non-blank case below occur.
\<close>

lemma startsWith_append [simp]: "startsWith (p @ s) p"
  by (induction p) simp_all

lemma showNat_digits: "showNat n \<noteq> [] \<and> (\<forall>c \<in> set (showNat n). isDigit c)"
proof (induction n rule: showNat.induct)
  case (1 n)
  show ?case
  proof (cases "n < 10")
    case True
    then show ?thesis by (subst (1 2) showNat.simps) (simp add: isDigit_def)
  next
    case False
    have "n mod 10 < 10" by simp
    then have "isDigit (48 + n mod 10)" unfolding isDigit_def by arith
    with False "1.IH" show ?thesis by (subst (1 2) showNat.simps) simp
  qed
qed

lemma columnNameOf_tableName: "columnNameOf (tableName column n) = column"
proof -
  let ?ds = "rev (showNat n)"
  have ds: "?ds \<noteq> []" "\<forall>c \<in> set ?ds. isDigit c"
    using showNat_digits [of n] by simp_all
  have nd: "\<not> isDigit 32" by (simp add: isDigit_def)
  have tw: "takeWhile isDigit (?ds @ rev countOpen @ rev column) = ?ds"
  proof -
    have "takeWhile isDigit (?ds @ rev countOpen @ rev column)
            = ?ds @ takeWhile isDigit (rev countOpen @ rev column)"
      by (rule takeWhile_append2) (use ds(2) in simp)
    then show ?thesis using nd by (simp add: countOpen_def)
  qed
  have dw: "dropWhile isDigit (?ds @ rev countOpen @ rev column) = rev countOpen @ rev column"
  proof -
    have "dropWhile isDigit (?ds @ rev countOpen @ rev column)
            = dropWhile isDigit (rev countOpen @ rev column)"
      by (rule dropWhile_append2) (use ds(2) in simp)
    then show ?thesis using nd by (simp add: countOpen_def)
  qed
  have pre: "stripNamePrefix (tableName column n) = column @ countOpen @ showNat n @ countClose"
    by (simp add: stripNamePrefix_def tableName_def)
  have r: "rev (column @ countOpen @ showNat n @ countClose)
             = rev countClose @ ?ds @ rev countOpen @ rev column"
    by simp
  have "stripCountSuffix (column @ countOpen @ showNat n @ countClose) = column"
    unfolding stripCountSuffix_def r Let_def
    using ds(1) by (simp add: tw dw)
  then show ?thesis by (simp add: columnNameOf_def pre)
qed

lemma built_rows_have_text:
  assumes strings: "\<forall>row \<in> set jsonData. \<forall>n. get row column \<noteq> Num n"
    and r: "r \<in> set (tableData jsonData column)"
  shows "\<exists>cs. contentOf (newTable ids column (tableData jsonData column)) r = Str cs \<and> cs \<noteq> []"
proof -
  from r obtain i where i: "i < length (filter (keepRow column) jsonData)"
    and ri: "r = projectRow (firstThreeColumns jsonData) column i (filter (keepRow column) jsonData ! i)"
    unfolding tableData_def
    by (metis in_set_conv_nth length_mapIndexed nth_mapIndexed)
  let ?row = "filter (keepRow column) jsonData ! i"
  have mem: "?row \<in> set (filter (keepRow column) jsonData)" using i by (rule nth_mem)
  then have keep: "keepRow column ?row" and inj: "?row \<in> set jsonData" by simp_all
  from keep strings inj obtain cs where cs: "get ?row column = Str cs" "cs \<noteq> []"
    by (cases "get ?row column") (auto simp: keepRow_iff)
  have "get r column = Str cs" by (simp add: ri get_projectRow_target cs)
  then have "contentOf (newTable ids column (tableData jsonData column)) r = Str cs"
    using cs(2) by (simp add: contentOf_def newTable_def columnNameOf_tableName or_else_def)
  with cs(2) show ?thesis by blast
qed




end
